theory Spec2Isabelle
  imports Complex_Main
begin

section \<open>Data model\<close>

text \<open>
  The routes of \<^verbatim>\<open>server/src/routes/cliques.ts\<close> work on six tables through the
  Prisma client and on one socket server. A row is a record; a table is the list of its
  rows in insertion order. Fields that several models share (\<^verbatim>\<open>user_id\<close>,
  \<^verbatim>\<open>clique_id\<close>, \<^verbatim>\<open>is_active\<close>, ...) carry a prefix on all models but the
  one that owns the name.
\<close>

type_synonym ident = string
type_synonym timestamp = int

text \<open>
  A JavaScript number as \<^verbatim>\<open>parseFloat\<close> returns it: \<open>NaN\<close> for a missing or
  non-numeric input, otherwise a finite value read as a real (the only test the routes make
  on it, \<^verbatim>\<open>!== 0\<close>, is exact on doubles, and \<^verbatim>\<open>-0 === 0\<close>).
\<close>

datatype jsnumber = NaN | Num real

fun js_strict_neq :: "jsnumber \<Rightarrow> jsnumber \<Rightarrow> bool" where
  "js_strict_neq (Num x) (Num y) = (x \<noteq> y)"
| "js_strict_neq _ _ = True"

text \<open>A value read from an untyped object: absent, a string, or something else.\<close>

datatype jsvalue = Undefined | Str string | Other

record user =
  user_id :: ident
  user_name :: string
  mail :: string

record clique =
  clique_id :: ident
  clique_name :: string
  fund :: jsnumber
  is_fund :: bool
  c_is_active :: bool

record member =
  member_id :: ident
  m_user_id :: ident
  m_clique_id :: ident
  is_admin :: bool
  is_active :: bool
  joined_at :: timestamp

record ledger =
  l_member_id :: ident
  l_clique_id :: ident
  amount :: real
  is_due :: bool

record transaction =
  transaction_id :: ident
  t_clique_id :: ident
  transaction_type :: string
  t_amount :: real
  description :: string
  sender_id :: ident
  is_verified :: bool
  done_at :: timestamp

record media =
  media_id :: ident
  md_clique_id :: ident
  file_url :: string
  media_type :: string
  md_sender_id :: ident

text \<open>What \<^verbatim>\<open>io.to(room).emit(name, payload)\<close> hands to the socket server.\<close>

record event =
  room :: ident
  event_name :: string
  event_payload :: media

record world =
  users :: "user list"
  cliques :: "clique list"
  members :: "member list"
  ledgers :: "ledger list"
  transactions :: "transaction list"
  medias :: "media list"
  emitted :: "event list"

section \<open>What the routes take from outside the file\<close>

text \<open>
  Every \<^verbatim>\<open>await prisma.x.y(...)\<close> may reject; each route catches the rejection and
  answers 500. \<open>rejects e i c\<close> says whether the storage layer refuses the call of kind
  \<open>c\<close> made while the route works on its \<open>i\<close>-th item (\<open>0\<close> outside the two loops).
  The id generators and the clock are imported collaborators: \<open>generateMemberId e i\<close> is
  the id returned by the call made for the \<open>i\<close>-th item (the loop of the add-members route
  calls the generator once in every iteration that goes on).
\<close>

datatype storage_call =
    UserFindUnique | CliqueFindMany | CliqueFindUnique | CliqueCreate | CliqueUpdate
  | CliqueDelete | MemberFindFirst | MemberCreate | MemberUpdate | LedgerCreate
  | TransactionDeleteMany | MediaFindMany | MediaCreate

datatype storage_error = Unavailable | UniqueConstraint | RecordNotFound | InconsistentResult

record env =
  generateCliqueId :: ident
  generateMemberId :: "nat \<Rightarrow> ident"
  generateMediaId :: ident
  now :: "nat \<Rightarrow> timestamp"
  rejects :: "nat \<Rightarrow> storage_call \<Rightarrow> bool"
  clique_is_active_default :: bool

text \<open>
  Modelled from the spec: the Prisma schema is not among the sources, and the routes create
  a Member without giving \<^verbatim>\<open>is_active\<close>. The spec has a newly added member listed and
  removable, and a second add of it answered with Conflict, so the column defaults to true.
  (The default of a Clique's own flag is not fixed by the spec; it is \<open>clique_is_active_default\<close>
  above.)
\<close>

definition member_is_active_default :: bool where
  "member_is_active_default = True"

text \<open>What \<^verbatim>\<open>checkIdentity\<close> leaves in \<^verbatim>\<open>res.locals.user\<close>.\<close>

record identity =
  caller_id :: ident
  caller_name :: string
  caller_email :: string

section \<open>The storage layer\<close>

definition storage :: "env \<Rightarrow> nat \<Rightarrow> storage_call \<Rightarrow> storage_error + 'a \<Rightarrow> storage_error + 'a" where
  "storage e i c r = (if rejects e i c then Inl Unavailable else r)"

text \<open>
  \<^verbatim>\<open>findUnique\<close> and \<^verbatim>\<open>findFirst\<close> answer null when no row matches.
  \<^verbatim>\<open>create\<close> rejects a row whose unique key is taken; \<^verbatim>\<open>update\<close> and
  \<^verbatim>\<open>delete\<close> take a unique \<^verbatim>\<open>where\<close> and reject when no row has that key
  (Prisma's "record not found"); \<^verbatim>\<open>deleteMany\<close> never rejects for want of rows.
  The routes address users by \<^verbatim>\<open>user_id\<close>, cliques by \<^verbatim>\<open>clique_id\<close> and
  members by \<^verbatim>\<open>member_id\<close> in unique \<^verbatim>\<open>where\<close> clauses, so these are unique keys.
  Referential actions of the schema are not among the sources: each call touches one table.
\<close>

definition user_findUnique :: "env \<Rightarrow> nat \<Rightarrow> world \<Rightarrow> ident \<Rightarrow> storage_error + user option" where
  "user_findUnique e i w uid =
     storage e i UserFindUnique (Inr (find (\<lambda>u. user_id u = uid) (users w)))"

definition clique_findUnique :: "env \<Rightarrow> nat \<Rightarrow> world \<Rightarrow> ident \<Rightarrow> storage_error + clique option" where
  "clique_findUnique e i w cid =
     storage e i CliqueFindUnique (Inr (find (\<lambda>c. clique_id c = cid) (cliques w)))"

definition clique_create :: "env \<Rightarrow> nat \<Rightarrow> world \<Rightarrow> clique \<Rightarrow> storage_error + world \<times> clique" where
  "clique_create e i w c =
     storage e i CliqueCreate
       (if clique_id c \<in> set (map clique_id (cliques w)) then Inl UniqueConstraint
        else Inr (w\<lparr>cliques := cliques w @ [c]\<rparr>, c))"

definition member_create :: "env \<Rightarrow> nat \<Rightarrow> world \<Rightarrow> member \<Rightarrow> storage_error + world \<times> member" where
  "member_create e i w m =
     storage e i MemberCreate
       (if member_id m \<in> set (map member_id (members w)) then Inl UniqueConstraint
        else Inr (w\<lparr>members := members w @ [m]\<rparr>, m))"

text \<open>
  Modelled from the spec: the schema's key of the Ledger model is not among the sources; the
  spec keys a Ledger entry by member id and clique id.
\<close>

definition ledger_key :: "ledger \<Rightarrow> ident \<times> ident" where
  "ledger_key l = (l_member_id l, l_clique_id l)"

definition ledger_create :: "env \<Rightarrow> nat \<Rightarrow> world \<Rightarrow> ledger \<Rightarrow> storage_error + world \<times> ledger" where
  "ledger_create e i w l =
     storage e i LedgerCreate
       (if ledger_key l \<in> set (map ledger_key (ledgers w)) then Inl UniqueConstraint
        else Inr (w\<lparr>ledgers := ledgers w @ [l]\<rparr>, l))"

section \<open>POST / : create a clique\<close>

datatype member_view =
  MemberView (mv_user_id: ident) (mv_member_id: ident) (mv_member_name: string)
    (mv_email: string) (mv_is_admin: bool)

record created_clique =
  cr_clique_id :: ident
  cr_clique_name :: string
  cr_members :: member_view
  cr_isFund :: bool
  cr_fund :: jsnumber
  cr_isActive :: bool

record added_member =
  am_member_id :: ident
  am_user_id :: ident
  am_clique_id :: ident
  am_is_admin :: bool
  am_joined_at :: timestamp
  am_member_name :: string
  am_email :: string

record listed_clique =
  lc_clique_id :: ident
  lc_clique_name :: string
  lc_members :: "member_view list"
  lc_is_fund :: bool
  lc_fund :: jsnumber
  lc_isActive :: bool
  lc_last_transaction :: "transaction option"

record clique_view =
  cv_clique_id :: ident
  cv_clique_name :: string
  cv_members :: "member_view list"
  cv_isFund :: bool
  cv_fund :: jsnumber
  cv_isActive :: bool

text \<open>
  A response body, by the shape of the JSON object the route sends; \<open>NoResponse\<close> is a
  handler whose promise rejects outside every \<^verbatim>\<open>try\<close>, so that nothing is sent.
\<close>

datatype payload =
    Text string
  | ErrorBody string
  | MessageBody string
  | FieldStatus string string
  | StatusMessage string string
  | MembersBody string string "added_member list"
  | CliqueListBody "listed_clique list"
  | CreatedCliqueBody created_clique
  | CliqueBody clique_view
  | MediaListBody "media list"
  | MediaBody media

datatype response = Response nat payload | NoResponse

definition new_clique :: "env \<Rightarrow> string \<Rightarrow> jsnumber \<Rightarrow> clique" where
  "new_clique e name funds =
     \<lparr>clique_id = generateCliqueId e, clique_name = name, fund = funds,
      is_fund = js_strict_neq funds (Num 0), c_is_active = clique_is_active_default e\<rparr>"

definition founding_member :: "env \<Rightarrow> identity \<Rightarrow> clique \<Rightarrow> member" where
  "founding_member e caller newClique =
     \<lparr>member_id = generateMemberId e 0, m_user_id = caller_id caller,
      m_clique_id = clique_id newClique, is_admin = True,
      is_active = member_is_active_default, joined_at = now e 0\<rparr>"

definition zero_ledger :: "member \<Rightarrow> ledger" where
  "zero_ledger newMember =
     \<lparr>l_member_id = member_id newMember, l_clique_id = m_clique_id newMember,
      amount = 0, is_due = False\<rparr>"

definition created_view :: "identity \<Rightarrow> clique \<Rightarrow> member \<Rightarrow> created_clique" where
  "created_view caller newClique newMember =
     \<lparr>cr_clique_id = clique_id newClique, cr_clique_name = clique_name newClique,
      cr_members = MemberView (m_user_id newMember) (member_id newMember)
                     (caller_name caller) (caller_email caller) True,
      cr_isFund = is_fund newClique, cr_fund = fund newClique,
      cr_isActive = c_is_active newClique\<rparr>"

definition create_failed :: response where
  "create_failed = Response 500 (ErrorBody ''An error occurred while creating the clique'')"

definition create_clique :: "env \<Rightarrow> world \<Rightarrow> identity \<Rightarrow> string \<Rightarrow> jsnumber \<Rightarrow> response \<times> world" where
  "create_clique e w caller name funds =
     (case clique_create e 0 w (new_clique e name funds) of
        Inl err \<Rightarrow> (create_failed, w)
      | Inr (w1, newClique) \<Rightarrow>
          (case member_create e 0 w1 (founding_member e caller newClique) of
             Inl err \<Rightarrow> (create_failed, w1)
           | Inr (w2, newMember) \<Rightarrow>
               (case ledger_create e 0 w2 (zero_ledger newMember) of
                  Inl err \<Rightarrow> (create_failed, w2)
                | Inr (w3, newLedger) \<Rightarrow>
                    (Response 201 (CreatedCliqueBody (created_view caller newClique newMember)),
                     w3))))"

section \<open>The remaining storage calls\<close>

definition member_findFirst ::
  "env \<Rightarrow> nat \<Rightarrow> world \<Rightarrow> ident \<Rightarrow> ident \<Rightarrow> storage_error + member option" where
  "member_findFirst e i w uid cid =
     storage e i MemberFindFirst
       (Inr (find (\<lambda>m. m_user_id m = uid \<and> m_clique_id m = cid) (members w)))"

definition member_update_is_active ::
  "env \<Rightarrow> nat \<Rightarrow> world \<Rightarrow> ident \<Rightarrow> bool \<Rightarrow> storage_error + world" where
  "member_update_is_active e i w mid b =
     storage e i MemberUpdate
       (if mid \<in> set (map member_id (members w))
        then Inr (w\<lparr>members :=
                    map (\<lambda>m. if member_id m = mid then m\<lparr>is_active := b\<rparr> else m) (members w)\<rparr>)
        else Inl RecordNotFound)"

definition clique_update_name ::
  "env \<Rightarrow> nat \<Rightarrow> world \<Rightarrow> ident \<Rightarrow> string \<Rightarrow> storage_error + world" where
  "clique_update_name e i w cid name =
     storage e i CliqueUpdate
       (if cid \<in> set (map clique_id (cliques w))
        then Inr (w\<lparr>cliques :=
                    map (\<lambda>c. if clique_id c = cid then c\<lparr>clique_name := name\<rparr> else c) (cliques w)\<rparr>)
        else Inl RecordNotFound)"

text \<open>
  \<^verbatim>\<open>delete\<close> hands back the deleted row, which the route then tests for null; the
  client never answers null here, it rejects instead.
\<close>

definition clique_delete ::
  "env \<Rightarrow> nat \<Rightarrow> world \<Rightarrow> ident \<Rightarrow> storage_error + world \<times> clique option" where
  "clique_delete e i w cid =
     storage e i CliqueDelete
       (case find (\<lambda>c. clique_id c = cid) (cliques w) of
          None \<Rightarrow> Inl RecordNotFound
        | Some c \<Rightarrow> Inr (w\<lparr>cliques := filter (\<lambda>c. clique_id c \<noteq> cid) (cliques w)\<rparr>, Some c))"

definition transaction_deleteMany :: "env \<Rightarrow> nat \<Rightarrow> world \<Rightarrow> ident \<Rightarrow> storage_error + world" where
  "transaction_deleteMany e i w cid =
     storage e i TransactionDeleteMany
       (Inr (w\<lparr>transactions := filter (\<lambda>t. t_clique_id t \<noteq> cid) (transactions w)\<rparr>))"

definition media_findMany :: "env \<Rightarrow> nat \<Rightarrow> world \<Rightarrow> ident \<Rightarrow> storage_error + media list" where
  "media_findMany e i w cid =
     storage e i MediaFindMany (Inr (filter (\<lambda>x. md_clique_id x = cid) (medias w)))"

definition media_create :: "env \<Rightarrow> nat \<Rightarrow> world \<Rightarrow> media \<Rightarrow> storage_error + world \<times> media" where
  "media_create e i w x =
     storage e i MediaCreate
       (if media_id x \<in> set (map media_id (medias w)) then Inl UniqueConstraint
        else Inr (w\<lparr>medias := medias w @ [x]\<rparr>, x))"

text \<open>
  The two reading routes ask for a clique's members \<^verbatim>\<open>where: { is_active: true }\<close>,
  each with its user. The relation to the user is a required one: a member row whose user
  row is missing makes the client reject the query.
\<close>

definition active_members_of :: "world \<Rightarrow> ident \<Rightarrow> member list" where
  "active_members_of w cid = filter (\<lambda>m. m_clique_id m = cid \<and> is_active m) (members w)"

fun include_user :: "user list \<Rightarrow> member list \<Rightarrow> storage_error + (member \<times> user) list" where
  "include_user us [] = Inr []"
| "include_user us (m # ms) =
     (case find (\<lambda>u. user_id u = m_user_id m) us of
        None \<Rightarrow> Inl InconsistentResult
      | Some u \<Rightarrow>
          (case include_user us ms of
             Inl err \<Rightarrow> Inl err
           | Inr r \<Rightarrow> Inr ((m, u) # r)))"

text \<open>
  \<^verbatim>\<open>orderBy: { done_at: 'desc' }, take: 1\<close>: the latest transaction of the clique,
  the earliest stored one among equals.
\<close>

definition latest_transactions :: "world \<Rightarrow> ident \<Rightarrow> transaction list" where
  "latest_transactions w cid =
     take 1 (sort_key (\<lambda>t. - done_at t) (filter (\<lambda>t. t_clique_id t = cid) (transactions w)))"

type_synonym clique_row = "clique \<times> (member \<times> user) list \<times> transaction list"

fun include_relations :: "world \<Rightarrow> clique list \<Rightarrow> storage_error + clique_row list" where
  "include_relations w [] = Inr []"
| "include_relations w (c # cs) =
     (case include_user (users w) (active_members_of w (clique_id c)) of
        Inl err \<Rightarrow> Inl err
      | Inr ms \<Rightarrow>
          (case include_relations w cs of
             Inl err \<Rightarrow> Inl err
           | Inr rs \<Rightarrow> Inr ((c, ms, latest_transactions w (clique_id c)) # rs)))"

definition clique_findMany :: "env \<Rightarrow> nat \<Rightarrow> world \<Rightarrow> ident \<Rightarrow> storage_error + clique_row list" where
  "clique_findMany e i w userId =
     storage e i CliqueFindMany
       (include_relations w
          (filter (\<lambda>c. list_ex (\<lambda>m. m_clique_id m = clique_id c \<and> m_user_id m = userId \<and> is_active m)
                               (members w))
                  (cliques w)))"

definition clique_findUnique_members ::
  "env \<Rightarrow> nat \<Rightarrow> world \<Rightarrow> ident \<Rightarrow> storage_error + (clique \<times> (member \<times> user) list) option" where
  "clique_findUnique_members e i w cid =
     storage e i CliqueFindUnique
       (case find (\<lambda>c. clique_id c = cid) (cliques w) of
          None \<Rightarrow> Inr None
        | Some c \<Rightarrow>
            (case include_user (users w) (active_members_of w (clique_id c)) of
               Inl err \<Rightarrow> Inl err
             | Inr ms \<Rightarrow> Inr (Some (c, ms))))"

section \<open>GET / and GET /:cliqueId\<close>

definition member_view_of :: "member \<times> user \<Rightarrow> member_view" where
  "member_view_of mu =
     MemberView (m_user_id (fst mu)) (member_id (fst mu)) (user_name (snd mu)) (mail (snd mu))
       (is_admin (fst mu))"

definition transformed_members :: "(member \<times> user) list \<Rightarrow> member_view list" where
  "transformed_members ms = map member_view_of (filter (\<lambda>mu. is_active (fst mu)) ms)"

definition listed_view :: "clique_row \<Rightarrow> listed_clique" where
  "listed_view row =
     (case row of (c, ms, ts) \<Rightarrow>
        \<lparr>lc_clique_id = clique_id c, lc_clique_name = clique_name c,
         lc_members = transformed_members ms,
         lc_is_fund = is_fund c, lc_fund = fund c, lc_isActive = c_is_active c,
         lc_last_transaction =
           (case ts of [] \<Rightarrow> None | t # rest \<Rightarrow> Some (t\<lparr>t_clique_id := clique_id c\<rparr>))\<rparr>)"

definition list_cliques :: "env \<Rightarrow> world \<Rightarrow> identity \<Rightarrow> response \<times> world" where
  "list_cliques e w caller =
     (case clique_findMany e 0 w (caller_id caller) of
        Inl err \<Rightarrow> (Response 500 (ErrorBody ''An error occurred while fetching records''), w)
      | Inr allRecords \<Rightarrow>
          if length allRecords = 0 then (Response 200 (Text ''No data found''), w)
          else (Response 200 (CliqueListBody (map listed_view allRecords)), w))"

definition get_clique :: "env \<Rightarrow> world \<Rightarrow> ident \<Rightarrow> response \<times> world" where
  "get_clique e w cliqueId =
     (case clique_findUnique_members e 0 w cliqueId of
        Inl err \<Rightarrow> (Response 500 (ErrorBody ''An error occurred while fetching the clique''), w)
      | Inr None \<Rightarrow> (Response 404 (MessageBody ''Clique not found''), w)
      | Inr (Some (c, ms)) \<Rightarrow>
          (Response 200 (CliqueBody
             \<lparr>cv_clique_id = clique_id c, cv_clique_name = clique_name c,
              cv_members = transformed_members ms,
              cv_isFund = is_fund c, cv_fund = fund c, cv_isActive = c_is_active c\<rparr>), w))"

section \<open>PATCH /:cliqueId and DELETE /:cliqueId\<close>

definition rename_failed :: response where
  "rename_failed = Response 500 (ErrorBody ''An error occurred while updating the clique'')"

definition rename_ok :: response where
  "rename_ok = Response 200 (FieldStatus ''name'' ''SUCCESS'')"

text \<open>
  \<^verbatim>\<open>req.body.name\<close> is \<open>None\<close> when the body has no name; \<^verbatim>\<open>if (name)\<close> holds
  for a string that is not empty.
\<close>

definition rename_clique :: "env \<Rightarrow> world \<Rightarrow> ident \<Rightarrow> string option \<Rightarrow> response \<times> world" where
  "rename_clique e w cliqueId name =
     (case clique_findUnique e 0 w cliqueId of
        Inl err \<Rightarrow> (rename_failed, w)
      | Inr None \<Rightarrow> (Response 404 (FieldStatus ''name'' ''NOT FOUND''), w)
      | Inr (Some existingClique) \<Rightarrow>
          (case name of
             None \<Rightarrow> (rename_ok, w)
           | Some n \<Rightarrow>
               if n \<noteq> [] then
                 (case clique_update_name e 0 w cliqueId n of
                    Inl err \<Rightarrow> (rename_failed, w)
                  | Inr w1 \<Rightarrow> (rename_ok, w1))
               else (rename_ok, w)))"

definition delete_failed :: response where
  "delete_failed = Response 500 (ErrorBody ''An error occurred while deleting the clique'')"

definition delete_clique :: "env \<Rightarrow> world \<Rightarrow> ident \<Rightarrow> response \<times> world" where
  "delete_clique e w cliqueId =
     (case clique_delete e 0 w cliqueId of
        Inl err \<Rightarrow> (delete_failed, w)
      | Inr (w1, None) \<Rightarrow> (Response 404 (FieldStatus ''cliqueId'' ''NOT FOUND''), w1)
      | Inr (w1, Some deletedClique) \<Rightarrow>
          (case transaction_deleteMany e 0 w1 cliqueId of
             Inl err \<Rightarrow> (delete_failed, w1)
           | Inr w2 \<Rightarrow> (Response 204 (MessageBody ''Clique deleted successfully''), w2)))"

section \<open>POST /:cliqueId/members/ and DELETE /:cliqueId/members/\<close>

definition add_failed :: response where
  "add_failed = Response 500 (StatusMessage ''FAILURE'' ''An error occurred while adding members'')"

definition members_added :: "added_member list \<Rightarrow> response" where
  "members_added newMembers =
     Response 201 (MembersBody ''SUCCESS'' ''Members added successfully'' newMembers)"

definition joining_member :: "env \<Rightarrow> nat \<Rightarrow> ident \<Rightarrow> ident \<Rightarrow> member" where
  "joining_member e i userId cliqueId =
     \<lparr>member_id = generateMemberId e i, m_user_id = userId, m_clique_id = cliqueId,
      is_admin = False, is_active = member_is_active_default, joined_at = now e i\<rparr>"

definition added_view :: "member \<Rightarrow> user \<Rightarrow> added_member" where
  "added_view newMember usr =
     \<lparr>am_member_id = member_id newMember, am_user_id = m_user_id newMember,
      am_clique_id = m_clique_id newMember, am_is_admin = is_admin newMember,
      am_joined_at = joined_at newMember, am_member_name = user_name usr, am_email = mail usr\<rparr>"

text \<open>
  One iteration of the loop over \<^verbatim>\<open>userIds\<close>: \<open>Inl\<close> is a \<^verbatim>\<open>return\<close> (or a
  rejection caught by the route) with the response sent and the tables as they are then,
  \<open>Inr\<close> goes on to the next id.
\<close>

definition add_one ::
  "env \<Rightarrow> ident \<Rightarrow> nat \<Rightarrow> ident \<Rightarrow> world \<Rightarrow> added_member list
     \<Rightarrow> response \<times> world + world \<times> added_member list" where
  "add_one e cliqueId i userId w newMembers =
     (case user_findUnique e i w userId of
        Inl err \<Rightarrow> Inl (add_failed, w)
      | Inr None \<Rightarrow>
          Inl (Response 404
                 (StatusMessage ''FAILURE'' (''User with user_id '' @ userId @ '' not found'')), w)
      | Inr (Some usr) \<Rightarrow>
          (case member_findFirst e i w userId cliqueId of
             Inl err \<Rightarrow> Inl (add_failed, w)
           | Inr (Some checkMember) \<Rightarrow>
               if is_active checkMember then
                 Inl (Response 409
                        (StatusMessage ''FAILURE''
                           (''User with email id: '' @ mail usr @ '' already exists in the clique'')),
                      w)
               else
                 (case member_update_is_active e i w (member_id checkMember) True of
                    Inl err \<Rightarrow> Inl (add_failed, w)
                  | Inr w1 \<Rightarrow> Inl (members_added newMembers, w1))
           | Inr None \<Rightarrow>
               (case member_create e i w (joining_member e i userId cliqueId) of
                  Inl err \<Rightarrow> Inl (add_failed, w)
                | Inr (w1, newMember) \<Rightarrow>
                    (case ledger_create e i w1 (zero_ledger newMember) of
                       Inl err \<Rightarrow> Inl (add_failed, w1)
                     | Inr (w2, newLedger) \<Rightarrow>
                         Inr (w2, newMembers @ [added_view newMember usr])))))"

fun add_loop ::
  "env \<Rightarrow> ident \<Rightarrow> nat \<Rightarrow> ident list \<Rightarrow> world \<Rightarrow> added_member list
     \<Rightarrow> response \<times> world + world \<times> added_member list" where
  "add_loop e cliqueId i [] w newMembers = Inr (w, newMembers)"
| "add_loop e cliqueId i (userId # rest) w newMembers =
     (case add_one e cliqueId i userId w newMembers of
        Inl out \<Rightarrow> Inl out
      | Inr (w1, newMembers1) \<Rightarrow> add_loop e cliqueId (Suc i) rest w1 newMembers1)"

text \<open>\<^verbatim>\<open>req.body\<close> is \<open>None\<close> when it is not an array.\<close>

definition add_members :: "env \<Rightarrow> world \<Rightarrow> ident \<Rightarrow> ident list option \<Rightarrow> response \<times> world" where
  "add_members e w cliqueId body =
     (case body of
        None \<Rightarrow>
          (Response 400
             (StatusMessage ''FAILURE'' ''Invalid input format. Expected an array of user IDs.''), w)
      | Some userIds \<Rightarrow>
          (case add_loop e cliqueId 0 userIds w [] of
             Inl out \<Rightarrow> out
           | Inr (w1, newMembers) \<Rightarrow>
               if length newMembers = 0 then
                 (Response 404
                    (StatusMessage ''FAILURE'' ''No valid users found to add to the clique.''), w1)
               else (members_added newMembers, w1)))"

definition remove_failed :: response where
  "remove_failed =
     Response 500 (StatusMessage ''FAILURE'' ''An error occurred while removing members'')"

fun remove_loop :: "env \<Rightarrow> nat \<Rightarrow> ident list \<Rightarrow> world \<Rightarrow> response \<times> world + world" where
  "remove_loop e i [] w = Inr w"
| "remove_loop e i (userId # rest) w =
     (case member_update_is_active e i w userId False of
        Inl err \<Rightarrow> Inl (remove_failed, w)
      | Inr w1 \<Rightarrow> remove_loop e (Suc i) rest w1)"

definition remove_members :: "env \<Rightarrow> world \<Rightarrow> ident list option \<Rightarrow> response \<times> world" where
  "remove_members e w body =
     (case body of
        None \<Rightarrow>
          (Response 400
             (StatusMessage ''FAILURE'' ''Invalid input format. Expected an array of user IDs.''), w)
      | Some userIds \<Rightarrow>
          (case remove_loop e 0 userIds w of
             Inl out \<Rightarrow> out
           | Inr w1 \<Rightarrow>
               (Response 204 (StatusMessage ''SUCCESS'' ''Members removed successfully''), w1)))"

section \<open>GET /:cliqueId/media and POST /:cliqueId/media/\<close>

text \<open>The listing route awaits the query outside every \<^verbatim>\<open>try\<close>.\<close>

definition list_media :: "env \<Rightarrow> world \<Rightarrow> jsvalue \<Rightarrow> response \<times> world" where
  "list_media e w cliqueId =
     (case cliqueId of
        Str cid \<Rightarrow>
          (case media_findMany e 0 w cid of
             Inl err \<Rightarrow> (NoResponse, w)
           | Inr found \<Rightarrow> (Response 200 (MediaListBody found), w))
      | _ \<Rightarrow> (Response 400 (MessageBody ''Invalid cliqueId provided or it is missing''), w))"

text \<open>
  \<^verbatim>\<open>req.file\<close> as the upload helper leaves it: of its fields the route reads
  \<^verbatim>\<open>mimetype\<close> and \<^verbatim>\<open>location\<close>, and the schema wants both to be strings.
\<close>

record upload =
  mimetype :: jsvalue
  location :: jsvalue

definition fileResponseSchema_parse :: "upload \<Rightarrow> (string \<times> string) option" where
  "fileResponseSchema_parse f =
     (case mimetype f of
        Str mt \<Rightarrow> (case location f of Str loc \<Rightarrow> Some (mt, loc) | _ \<Rightarrow> None)
      | _ \<Rightarrow> None)"

definition upload_media ::
  "env \<Rightarrow> world \<Rightarrow> ident \<Rightarrow> member \<Rightarrow> upload option \<Rightarrow> response \<times> world" where
  "upload_media e w cliqueId sender file =
     (case file of
        None \<Rightarrow> (Response 400 (MessageBody ''No file was provided!!''), w)
      | Some f \<Rightarrow>
          (case fileResponseSchema_parse f of
             None \<Rightarrow>
               (Response 500
                  (MessageBody ''File was not uploaded ! Please retry after a moment !''), w)
           | Some (mt, loc) \<Rightarrow>
               (case media_create e 0 w
                       \<lparr>media_id = generateMediaId e, md_clique_id = cliqueId, file_url = loc,
                        media_type = mt, md_sender_id = member_id sender\<rparr> of
                  Inl err \<Rightarrow> (Response 500 (Text ''Database error''), w)
                | Inr (w1, created) \<Rightarrow>
                    (Response 201 (MediaBody created),
                     w1\<lparr>emitted := emitted w1 @
                          [\<lparr>room = cliqueId, event_name = ''media-created'',
                            event_payload = created\<rparr>]\<rparr>))))"

section \<open>The router\<close>

datatype request =
    ListCliques identity
  | CreateClique identity string jsnumber
  | GetClique ident
  | RenameClique ident "string option"
  | DeleteClique ident
  | AddMembers ident "ident list option"
  | RemoveMembers "ident list option"
  | ListMedia jsvalue
  | UploadMedia ident member "upload option"

fun handle :: "env \<Rightarrow> world \<Rightarrow> request \<Rightarrow> response \<times> world" where
  "handle e w (ListCliques caller) = list_cliques e w caller"
| "handle e w (CreateClique caller name funds) = create_clique e w caller name funds"
| "handle e w (GetClique cliqueId) = get_clique e w cliqueId"
| "handle e w (RenameClique cliqueId name) = rename_clique e w cliqueId name"
| "handle e w (DeleteClique cliqueId) = delete_clique e w cliqueId"
| "handle e w (AddMembers cliqueId body) = add_members e w cliqueId body"
| "handle e w (RemoveMembers body) = remove_members e w body"
| "handle e w (ListMedia cliqueId) = list_media e w cliqueId"
| "handle e w (UploadMedia cliqueId sender file) = upload_media e w cliqueId sender file"

section \<open>Notions used in the statements\<close>

text \<open>
  The member rows that the add-members loop creates for the ids \<open>userIds\<close> when every one
  of them is new to the clique, the first being the \<open>i\<close>-th item of the request.
\<close>

fun joined :: "env \<Rightarrow> ident \<Rightarrow> nat \<Rightarrow> ident list \<Rightarrow> member list" where
  "joined e cliqueId i [] = []"
| "joined e cliqueId i (userId # rest) =
     joining_member e i userId cliqueId # joined e cliqueId (Suc i) rest"

text \<open>The member table after \<^verbatim>\<open>is_active\<close> was set to false on the rows with the given ids.\<close>

definition deactivated :: "ident list \<Rightarrow> member list \<Rightarrow> member list" where
  "deactivated ids ms = map (\<lambda>m. if member_id m \<in> set ids then m\<lparr>is_active := False\<rparr> else m) ms"

section \<open>Sample data\<close>

definition alice :: user where
  "alice = \<lparr>user_id = ''u1'', user_name = ''Alice'', mail = ''alice@example.org''\<rparr>"

definition bob :: user where
  "bob = \<lparr>user_id = ''u2'', user_name = ''Bob'', mail = ''bob@example.org''\<rparr>"

definition carol :: user where
  "carol = \<lparr>user_id = ''u3'', user_name = ''Carol'', mail = ''carol@example.org''\<rparr>"

definition founder :: identity where
  "founder = \<lparr>caller_id = ''u1'', caller_name = ''Alice'', caller_email = ''alice@example.org''\<rparr>"

definition trip :: clique where
  "trip = \<lparr>clique_id = ''c1'', clique_name = ''Trip'', fund = Num 0, is_fund = False,
            c_is_active = True\<rparr>"

definition alice_in_trip :: member where
  "alice_in_trip = \<lparr>member_id = ''m1'', m_user_id = ''u1'', m_clique_id = ''c1'', is_admin = True,
                     is_active = True, joined_at = 100\<rparr>"

definition bob_in_trip :: member where
  "bob_in_trip = \<lparr>member_id = ''m2'', m_user_id = ''u2'', m_clique_id = ''c1'', is_admin = False,
                   is_active = False, joined_at = 110\<rparr>"

definition trip_payment :: transaction where
  "trip_payment = \<lparr>transaction_id = ''t1'', t_clique_id = ''c1'', transaction_type = ''send'',
                    t_amount = 25, description = ''tickets'', sender_id = ''m2'',
                    is_verified = True, done_at = 120\<rparr>"

definition trip_world :: world where
  "trip_world =
     \<lparr>users = [alice, bob, carol], cliques = [trip], members = [alice_in_trip, bob_in_trip],
      ledgers = [\<lparr>l_member_id = ''m1'', l_clique_id = ''c1'', amount = 0, is_due = False\<rparr>,
                 \<lparr>l_member_id = ''m2'', l_clique_id = ''c1'', amount = 25, is_due = True\<rparr>],
      transactions = [trip_payment], medias = [], emitted = []\<rparr>"

definition quiet_env :: env where
  "quiet_env =
     \<lparr>generateCliqueId = ''c2'', generateMemberId = (\<lambda>i. ''n'' @ replicate i (CHR ''x'')),
      generateMediaId = ''f1'', now = (\<lambda>i. 200 + int i), rejects = (\<lambda>i c. False),
      clique_is_active_default = True\<rparr>"

definition member_outage_env :: env where
  "member_outage_env = quiet_env\<lparr>rejects := (\<lambda>i c. c = MemberCreate)\<rparr>"

text \<open>The storage layer refusing every call of one kind and serving the others.\<close>

definition outage_env :: "storage_call \<Rightarrow> env" where
  "outage_env refused = quiet_env\<lparr>rejects := (\<lambda>i c. c = refused)\<rparr>"

definition trip_listed :: listed_clique where
  "trip_listed =
     \<lparr>lc_clique_id = ''c1'', lc_clique_name = ''Trip'',
      lc_members = [MemberView ''u1'' ''m1'' ''Alice'' ''alice@example.org'' True],
      lc_is_fund = False, lc_fund = Num 0, lc_isActive = True,
      lc_last_transaction = Some trip_payment\<rparr>"

definition trip_view :: clique_view where
  "trip_view =
     \<lparr>cv_clique_id = ''c1'', cv_clique_name = ''Trip'',
      cv_members = [MemberView ''u1'' ''m1'' ''Alice'' ''alice@example.org'' True],
      cv_isFund = False, cv_fund = Num 0, cv_isActive = True\<rparr>"

section \<open>Evaluation and unfolding rules\<close>

lemmas sample_defs =
  alice_def bob_def carol_def founder_def trip_def alice_in_trip_def bob_in_trip_def
  trip_payment_def trip_world_def quiet_env_def member_outage_env_def outage_env_def

lemmas storage_defs =
  storage_def user_findUnique_def clique_findUnique_def clique_create_def member_create_def
  ledger_key_def ledger_create_def member_findFirst_def member_update_is_active_def
  clique_update_name_def clique_delete_def transaction_deleteMany_def media_findMany_def
  media_create_def

section \<open>Creating a clique\<close>

text \<open>
  Claim C1 as it is written (after a create call either the Clique, its founding Member and
  the Ledger entry all exist, or none of them does) fails. Here the storage layer refuses
  the second of the three calls, the one that creates the Member: the route answers 500, and
  the new clique \<open>c2\<close> stays in the table with no member and no ledger entry.
\<close>

theorem create_clique_partial_counterexample:
  "create_clique member_outage_env trip_world founder ''Goa'' (Num 0) =
     (create_failed,
      trip_world\<lparr>cliques := [trip, new_clique member_outage_env ''Goa'' (Num 0)]\<rparr>)
   \<and> clique_id (new_clique member_outage_env ''Goa'' (Num 0)) = ''c2''
   \<and> map m_clique_id (members trip_world) = [''c1'', ''c1'']
   \<and> map l_clique_id (ledgers trip_world) = [''c1'', ''c1'']"
  by (simp add: create_clique_def storage_defs new_clique_def founding_member_def sample_defs)

text \<open>
  Claim C1, amended. The route writes the Clique, then the founding Member, then the Ledger
  entry, in three storage calls, and undoes none of them. What a create call leaves is fixed
  by the first call that fails (refused by the storage layer, or its key taken):
  \<^item> the Clique: the answer is 500 and nothing is added;
  \<^item> the Member: the answer is 500 and the new Clique stays, without a member;
  \<^item> the Ledger entry: the answer is 500 and the new Clique and its Member stay, without a
    ledger entry;
  \<^item> none: the answer is 201 and exactly the three rows are added.
  The member is an admin of the new clique, and the ledger entry is that member's, in that
  clique, with amount 0.
\<close>

theorem create_clique_outcomes:
  "((rejects e 0 CliqueCreate \<or> clique_id (new_clique e name funds) \<in> set (map clique_id (cliques w)))
     \<longrightarrow> create_clique e w caller name funds = (create_failed, w))
   \<and> (\<not> (rejects e 0 CliqueCreate \<or> clique_id (new_clique e name funds) \<in> set (map clique_id (cliques w)))
      \<and> (rejects e 0 MemberCreate \<or> member_id (founding_member e caller (new_clique e name funds)) \<in> set (map member_id (members w)))
     \<longrightarrow> create_clique e w caller name funds =
           (create_failed, w\<lparr>cliques := cliques w @ [(new_clique e name funds)]\<rparr>))
   \<and> (\<not> (rejects e 0 CliqueCreate \<or> clique_id (new_clique e name funds) \<in> set (map clique_id (cliques w)))
      \<and> \<not> (rejects e 0 MemberCreate \<or> member_id (founding_member e caller (new_clique e name funds)) \<in> set (map member_id (members w)))
      \<and> (rejects e 0 LedgerCreate \<or> ledger_key (zero_ledger (founding_member e caller (new_clique e name funds))) \<in> set (map ledger_key (ledgers w)))
     \<longrightarrow> create_clique e w caller name funds =
           (create_failed,
            w\<lparr>cliques := cliques w @ [(new_clique e name funds)],
              members := members w @ [(founding_member e caller (new_clique e name funds))]\<rparr>))
   \<and> (\<not> (rejects e 0 CliqueCreate \<or> clique_id (new_clique e name funds) \<in> set (map clique_id (cliques w)))
      \<and> \<not> (rejects e 0 MemberCreate \<or> member_id (founding_member e caller (new_clique e name funds)) \<in> set (map member_id (members w)))
      \<and> \<not> (rejects e 0 LedgerCreate \<or> ledger_key (zero_ledger (founding_member e caller (new_clique e name funds))) \<in> set (map ledger_key (ledgers w)))
     \<longrightarrow> create_clique e w caller name funds =
           (Response 201 (CreatedCliqueBody (created_view caller (new_clique e name funds)
                                               (founding_member e caller (new_clique e name funds)))),
            w\<lparr>cliques := cliques w @ [(new_clique e name funds)],
              members := members w @ [(founding_member e caller (new_clique e name funds))],
              ledgers := ledgers w @ [(zero_ledger (founding_member e caller (new_clique e name funds)))]\<rparr>))
   \<and> is_admin (founding_member e caller (new_clique e name funds))
   \<and> m_clique_id (founding_member e caller (new_clique e name funds)) = clique_id (new_clique e name funds)
   \<and> l_member_id (zero_ledger (founding_member e caller (new_clique e name funds))) = member_id (founding_member e caller (new_clique e name funds))
   \<and> l_clique_id (zero_ledger (founding_member e caller (new_clique e name funds))) = clique_id (new_clique e name funds)
   \<and> amount (zero_ledger (founding_member e caller (new_clique e name funds))) = 0"
  by (simp add: create_clique_def storage_defs founding_member_def zero_ledger_def)

text \<open>The four outcomes, on the sample tables: all calls served, and each of the three refused.\<close>

theorem create_clique_outcomes_witness:
  "create_clique quiet_env trip_world founder ''Goa'' (Num 10) =
     (Response 201 (CreatedCliqueBody
        (created_view founder (new_clique quiet_env ''Goa'' (Num 10))
           (founding_member quiet_env founder (new_clique quiet_env ''Goa'' (Num 10))))),
      trip_world\<lparr>cliques := cliques trip_world @ [new_clique quiet_env ''Goa'' (Num 10)],
        members := members trip_world @
          [founding_member quiet_env founder (new_clique quiet_env ''Goa'' (Num 10))],
        ledgers := ledgers trip_world @
          [zero_ledger (founding_member quiet_env founder (new_clique quiet_env ''Goa'' (Num 10)))]\<rparr>)
   \<and> create_clique (outage_env CliqueCreate) trip_world founder ''Goa'' (Num 10) =
       (create_failed, trip_world)
   \<and> create_clique (outage_env MemberCreate) trip_world founder ''Goa'' (Num 10) =
       (create_failed,
        trip_world\<lparr>cliques := cliques trip_world @
          [new_clique (outage_env MemberCreate) ''Goa'' (Num 10)]\<rparr>)
   \<and> create_clique (outage_env LedgerCreate) trip_world founder ''Goa'' (Num 10) =
       (create_failed,
        trip_world\<lparr>cliques := cliques trip_world @
            [new_clique (outage_env LedgerCreate) ''Goa'' (Num 10)],
          members := members trip_world @
            [founding_member (outage_env LedgerCreate) founder
               (new_clique (outage_env LedgerCreate) ''Goa'' (Num 10))]\<rparr>)"
proof -
  have ids: "map clique_id (cliques trip_world) = [''c1'']"
    "map member_id (members trip_world) = [''m1'', ''m2'']"
    "map ledger_key (ledgers trip_world) = [(''m1'', ''c1''), (''m2'', ''c1'')]"
    by (simp_all add: ledger_key_def sample_defs)
  have new: "clique_id (new_clique (outage_env k) ''Goa'' (Num 10)) = ''c2''"
    "member_id (founding_member (outage_env k) founder c) = ''n''"
    "clique_id (new_clique quiet_env ''Goa'' (Num 10)) = ''c2''"
    "member_id (founding_member quiet_env founder c) = ''n''"
    "ledger_key (zero_ledger (founding_member quiet_env founder c)) = (''n'', clique_id c)"
    "ledger_key (zero_ledger (founding_member (outage_env k) founder c)) = (''n'', clique_id c)"
    for k and c :: clique
    by (simp_all add: new_clique_def founding_member_def zero_ledger_def ledger_key_def
          outage_env_def quiet_env_def)
  have rej: "rejects (outage_env k) 0 c = (c = k)" "\<not> rejects quiet_env 0 c" for k c
    by (simp_all add: outage_env_def quiet_env_def)
  from create_clique_outcomes
         [where e = quiet_env and w = trip_world and caller = founder and name = "''Goa''"
            and funds = "Num 10"]
       create_clique_outcomes
         [where e = "outage_env CliqueCreate" and w = trip_world and caller = founder
            and name = "''Goa''" and funds = "Num 10"]
       create_clique_outcomes
         [where e = "outage_env MemberCreate" and w = trip_world and caller = founder
            and name = "''Goa''" and funds = "Num 10"]
       create_clique_outcomes
         [where e = "outage_env LedgerCreate" and w = trip_world and caller = founder
            and name = "''Goa''" and funds = "Num 10"]
  show ?thesis by (simp add: ids new rej)
qed

section \<open>Re-adding a removed member\<close>

text \<open>
  Claim C2 (an inactive member is reactivated in place, enters the returned list, and the loop
  goes on to the next id) against the code. Bob (\<open>u2\<close>) has an inactive row in the trip,
  Carol (\<open>u3\<close>) has none. The request \<open>[u2, u3]\<close> reactivates Bob's row, keeping its
  member id and adding no ledger entry, and then returns at once: the returned list is empty
  and Carol is never looked at.
\<close>

theorem add_members_reactivation_returns_early:
  "add_members quiet_env trip_world ''c1'' (Some [''u2'', ''u3'']) =
     (Response 201 (MembersBody ''SUCCESS'' ''Members added successfully'' []),
      trip_world\<lparr>members := [alice_in_trip, bob_in_trip\<lparr>is_active := True\<rparr>]\<rparr>)"
  by (simp add: add_members_def add_one_def members_added_def storage_defs sample_defs)

section \<open>Deleting a clique\<close>

text \<open>
  Claim C3 (deleting a clique id that does not exist fails with 404) against the code: the
  client's \<^verbatim>\<open>delete\<close> rejects when no row has the id, the route's \<^verbatim>\<open>catch\<close>
  answers 500, and the test \<^verbatim>\<open>if (!deletedClique)\<close> that would answer 404 is never
  reached.
\<close>

theorem delete_absent_clique_answers_500:
  "delete_clique quiet_env trip_world ''c9'' =
     (Response 500 (ErrorBody ''An error occurred while deleting the clique''), trip_world)"
  by (simp add: delete_clique_def delete_failed_def storage_defs sample_defs)

text \<open>The 404 branch of the delete route is dead, and a successful delete does remove the
  group and its transactions.\<close>

lemma delete_clique_never_404: "fst (delete_clique e w cid) \<noteq> Response 404 body"
  by (auto simp: delete_clique_def delete_failed_def storage_defs split: option.splits sum.splits)

lemma delete_clique_removes:
  assumes "delete_clique e w cid = (Response 204 body, w')"
  shows "find (\<lambda>c. clique_id c = cid) (cliques w') = None
         \<and> filter (\<lambda>t. t_clique_id t = cid) (transactions w') = []"
  using assms
  by (auto simp: delete_clique_def delete_failed_def storage_defs find_None_iff filter_empty_conv
           split: option.splits sum.splits if_splits)

section \<open>Renaming a clique\<close>

text \<open>
  Claim C10: for an existing clique, a rename request whose name is absent or the empty
  string changes nothing in any table and is answered 200 with status SUCCESS (the lookup of
  the clique being served by the storage layer).
\<close>

theorem rename_without_name_changes_nothing:
  assumes "find (\<lambda>c. clique_id c = cliqueId) (cliques w) = Some c"
    and "\<not> rejects e 0 CliqueFindUnique"
    and "name = None \<or> name = Some []"
  shows "rename_clique e w cliqueId name = (Response 200 (FieldStatus ''name'' ''SUCCESS''), w)"
  using assms by (auto simp: rename_clique_def rename_ok_def storage_defs)

text \<open>The trip, renamed to the empty string and renamed with no name at all.\<close>

theorem rename_without_name_changes_nothing_witness:
  "rename_clique quiet_env trip_world ''c1'' (Some []) =
     (Response 200 (FieldStatus ''name'' ''SUCCESS''), trip_world)
   \<and> rename_clique quiet_env trip_world ''c1'' None =
     (Response 200 (FieldStatus ''name'' ''SUCCESS''), trip_world)"
  using rename_without_name_changes_nothing [of "''c1''" trip_world trip quiet_env "Some []"]
    rename_without_name_changes_nothing [of "''c1''" trip_world trip quiet_env None]
  by (simp add: sample_defs)

section \<open>Uploading media\<close>

text \<open>
  Claim C7: when the stored upload carries no string \<^verbatim>\<open>mimetype\<close> or no string
  \<^verbatim>\<open>location\<close>, the upload route answers 500 and leaves everything as it was: no
  Media row is created and no \<^verbatim>\<open>media-created\<close> event is emitted.
\<close>

theorem upload_without_metadata_creates_nothing:
  assumes "(\<forall>s. mimetype f \<noteq> Str s) \<or> (\<forall>s. location f \<noteq> Str s)"
  shows "upload_media e w cliqueId sender (Some f) =
           (Response 500 (MessageBody ''File was not uploaded ! Please retry after a moment !''), w)
         \<and> medias (snd (upload_media e w cliqueId sender (Some f))) = medias w
         \<and> emitted (snd (upload_media e w cliqueId sender (Some f))) = emitted w"
  using assms
  by (auto simp: upload_media_def fileResponseSchema_parse_def split: jsvalue.splits)

text \<open>An upload result without \<^verbatim>\<open>location\<close>.\<close>

theorem upload_without_metadata_creates_nothing_witness:
  "upload_media quiet_env trip_world ''c1'' alice_in_trip
       (Some \<lparr>mimetype = Str ''image/png'', location = Undefined\<rparr>) =
     (Response 500 (MessageBody ''File was not uploaded ! Please retry after a moment !''),
      trip_world)"
  using upload_without_metadata_creates_nothing
    [of "\<lparr>mimetype = Str ''image/png'', location = Undefined\<rparr>" quiet_env trip_world "''c1''"
        alice_in_trip]
  by simp

text \<open>For comparison, a complete upload result: one row, one event to the room of the clique.\<close>

lemma upload_with_metadata:
  "upload_media quiet_env trip_world ''c1'' alice_in_trip
       (Some \<lparr>mimetype = Str ''image/png'', location = Str ''s3://b/k''\<rparr>) =
     (Response 201 (MediaBody \<lparr>media_id = ''f1'', md_clique_id = ''c1'', file_url = ''s3://b/k'',
                     media_type = ''image/png'', md_sender_id = ''m1''\<rparr>),
      trip_world\<lparr>medias := [\<lparr>media_id = ''f1'', md_clique_id = ''c1'', file_url = ''s3://b/k'',
                     media_type = ''image/png'', md_sender_id = ''m1''\<rparr>],
         emitted := [\<lparr>room = ''c1'', event_name = ''media-created'',
            event_payload = \<lparr>media_id = ''f1'', md_clique_id = ''c1'', file_url = ''s3://b/k'',
                     media_type = ''image/png'', md_sender_id = ''m1''\<rparr>\<rparr>]\<rparr>)"
  by (simp add: upload_media_def fileResponseSchema_parse_def storage_defs sample_defs)

section \<open>Lists\<close>

lemma find_append_cases:
  "find P (xs @ ys) = (case find P xs of None \<Rightarrow> find P ys | Some x \<Rightarrow> Some x)"
  by (induction xs) auto

lemma find_map_same_key:
  assumes "\<And>x. P (f x) = P x"
  shows "find P (map f xs) = map_option f (find P xs)"
  using assms by (induction xs) auto

lemma find_filter_other_key:
  "find (\<lambda>c. k c = a) (filter (\<lambda>c. k c \<noteq> b) xs) =
     (if a = b then None else find (\<lambda>c. k c = a) xs)"
  by (induction xs) auto

lemma find_Some_in_set: "find P xs = Some x \<Longrightarrow> x \<in> set xs \<and> P x"
  by (induction xs) (auto split: if_splits)

section \<open>The loop of the add-members route\<close>

lemma joined_user_ids: "map m_user_id (joined e c i xs) = xs"
  by (induction xs arbitrary: i) (auto simp: joining_member_def)

lemma joined_length: "length (joined e c i xs) = length xs"
  by (induction xs arbitrary: i) auto

lemma joined_facts:
  "m \<in> set (joined e c i xs) \<Longrightarrow>
     m_user_id m \<in> set xs \<and> m_clique_id m = c \<and> \<not> is_admin m \<and> is_active m"
  by (induction xs arbitrary: i) (auto simp: joining_member_def member_is_active_default_def)

lemma add_one_Inr:
  assumes "add_one e c i x w acc = Inr (w1, acc1)"
  shows "\<exists>usr. find (\<lambda>u. user_id u = x) (users w) = Some usr
           \<and> find (\<lambda>m. m_user_id m = x \<and> m_clique_id m = c) (members w) = None
           \<and> member_id (joining_member e i x c) \<notin> set (map member_id (members w))
           \<and> w1 = w\<lparr>members := members w @ [joining_member e i x c],
                     ledgers := ledgers w @ [zero_ledger (joining_member e i x c)]\<rparr>
           \<and> acc1 = acc @ [added_view (joining_member e i x c) usr]"
  using assms
  by (auto simp: add_one_def storage_defs split: if_splits option.splits sum.splits)

lemma add_loop_Inr:
  assumes "add_loop e c i xs w acc = Inr (w1, acc1)"
  shows "w1 = w\<lparr>members := members w @ joined e c i xs,
                 ledgers := ledgers w @ map zero_ledger (joined e c i xs)\<rparr>
         \<and> length acc1 = length acc + length xs
         \<and> (\<forall>x \<in> set xs. find (\<lambda>m. m_user_id m = x \<and> m_clique_id m = c) (members w) = None)
         \<and> set (map member_id (joined e c i xs)) \<inter> set (map member_id (members w)) = {}"
  using assms
proof (induction xs arbitrary: i w acc)
  case Nil
  then show ?case by simp
next
  case (Cons x xs)
  from Cons.prems obtain w2 acc2 where
    one: "add_one e c i x w acc = Inr (w2, acc2)" and
    rest: "add_loop e c (Suc i) xs w2 acc2 = Inr (w1, acc1)"
    by (auto split: sum.splits)
  from add_one_Inr [OF one] obtain usr where
    none: "find (\<lambda>m. m_user_id m = x \<and> m_clique_id m = c) (members w) = None" and
    fresh: "member_id (joining_member e i x c) \<notin> set (map member_id (members w))" and
    w2: "w2 = w\<lparr>members := members w @ [joining_member e i x c],
                 ledgers := ledgers w @ [zero_ledger (joining_member e i x c)]\<rparr>" and
    acc2: "acc2 = acc @ [added_view (joining_member e i x c) usr]"
    by blast
  note ih = Cons.IH [OF rest]
  have a: "w1 = w\<lparr>members := members w @ joined e c i (x # xs),
                   ledgers := ledgers w @ map zero_ledger (joined e c i (x # xs))\<rparr>"
    using ih w2 by simp
  have b: "length acc1 = length acc + length (x # xs)"
    using ih acc2 by simp
  have c: "\<forall>y \<in> set (x # xs). find (\<lambda>m. m_user_id m = y \<and> m_clique_id m = c) (members w) = None"
  proof
    fix y assume "y \<in> set (x # xs)"
    then consider "y = x" | "y \<in> set xs" by auto
    then show "find (\<lambda>m. m_user_id m = y \<and> m_clique_id m = c) (members w) = None"
    proof cases
      case 1
      then show ?thesis using none by simp
    next
      case 2
      with ih have "find (\<lambda>m. m_user_id m = y \<and> m_clique_id m = c) (members w2) = None"
        by blast
      then show ?thesis
        by (simp add: w2 find_append_cases split: option.splits)
    qed
  qed
  have d: "set (map member_id (joined e c i (x # xs))) \<inter> set (map member_id (members w)) = {}"
    using ih fresh by (auto simp: w2)
  from a b c d show ?case by blast
qed

lemma add_loop_append:
  "add_loop e c i (xs @ ys) w acc =
     (case add_loop e c i xs w acc of
        Inl out \<Rightarrow> Inl out
      | Inr (w1, acc1) \<Rightarrow> add_loop e c (i + length xs) ys w1 acc1)"
  by (induction xs arbitrary: i w acc) (auto split: sum.splits)

lemma joined_other_user:
  "u \<notin> set xs \<Longrightarrow> filter (\<lambda>x. m_user_id x = u \<and> m_clique_id x = g) (joined e c i xs) = []"
  by (induction xs arbitrary: i) (auto simp: joining_member_def)

lemma zero_ledger_other_member:
  "mid \<notin> set (map member_id ms) \<Longrightarrow> filter (\<lambda>l. l_member_id l = mid) (map zero_ledger ms) = []"
  by (induction ms) (auto simp: zero_ledger_def)

section \<open>Adding an unknown user\<close>

text \<open>
  Claim C5 (an id that resolves to no user makes the call fail with 404 for that id) against
  the code. Bob (\<open>u2\<close>) has an inactive row in the trip and no user has the id \<open>u9\<close>.
  The request \<open>[u2, u9]\<close> reactivates Bob's row and returns at once with 201: \<open>u9\<close> is
  never looked up and no 404 is answered. It is the early return of the reactivation branch
  again.
\<close>

theorem add_members_unknown_user_after_reactivation:
  "add_members quiet_env trip_world ''c1'' (Some [''u2'', ''u9'']) =
     (Response 201 (MembersBody ''SUCCESS'' ''Members added successfully'' []),
      trip_world\<lparr>members := [alice_in_trip, bob_in_trip\<lparr>is_active := True\<rparr>]\<rparr>)
   \<and> map user_id (users trip_world) = [''u1'', ''u2'', ''u3'']"
  by (simp add: add_members_def add_one_def members_added_def storage_defs sample_defs)

text \<open>
  What does hold for an unknown user: let the ids \<open>pre\<close> in front of \<open>u\<close> all have
  been new to the clique and added (the loop ran through them and stands at \<open>u\<close> with the
  tables \<open>w1\<close>), and let \<open>u\<close> resolve to no user. Then the call answers 404 naming
  \<open>u\<close>, whatever ids \<open>post\<close> follow, and the tables it leaves are \<open>w1\<close>: the Member
  rows and Ledger entries created for \<open>pre\<close>, one per id, are all still there.
\<close>

lemma unknown_user_after_new_ids:
  assumes "add_loop e g 0 pre w [] = Inr (w1, acc1)"
    and "\<not> rejects e (length pre) UserFindUnique"
    and "find (\<lambda>x. user_id x = u) (users w) = None"
  shows "add_members e w g (Some (pre @ u # post)) =
           (Response 404 (StatusMessage ''FAILURE'' (''User with user_id '' @ u @ '' not found'')),
            w1)
         \<and> w1 = w\<lparr>members := members w @ joined e g 0 pre,
                   ledgers := ledgers w @ map zero_ledger (joined e g 0 pre)\<rparr>
         \<and> map m_user_id (joined e g 0 pre) = pre"
proof -
  from add_loop_Inr [OF assms(1)] have
    w1: "w1 = w\<lparr>members := members w @ joined e g 0 pre,
                 ledgers := ledgers w @ map zero_ledger (joined e g 0 pre)\<rparr>"
    by blast
  have "users w1 = users w" by (simp add: w1)
  with assms(2,3) have
    "add_one e g (length pre) u w1 acc1 =
       Inl (Response 404 (StatusMessage ''FAILURE'' (''User with user_id '' @ u @ '' not found'')),
            w1)"
    by (simp add: add_one_def storage_defs)
  then have "add_members e w g (Some (pre @ u # post)) =
           (Response 404 (StatusMessage ''FAILURE'' (''User with user_id '' @ u @ '' not found'')),
            w1)"
    using assms(1) by (simp add: add_members_def add_loop_append)
  with w1 show ?thesis by (simp add: joined_user_ids)
qed

text \<open>Carol is added, \<open>u9\<close> is unknown, Bob is never reached.\<close>

lemma unknown_user_after_new_ids_example:
  "add_loop quiet_env ''c1'' 0 [''u3''] trip_world [] =
     Inr (trip_world\<lparr>members := members trip_world @ joined quiet_env ''c1'' 0 [''u3''],
            ledgers := ledgers trip_world @ map zero_ledger (joined quiet_env ''c1'' 0 [''u3''])\<rparr>,
          [added_view (joining_member quiet_env 0 ''u3'' ''c1'') carol])
   \<and> add_members quiet_env trip_world ''c1'' (Some [''u3'', ''u9'', ''u2'']) =
       (Response 404 (StatusMessage ''FAILURE'' ''User with user_id u9 not found''),
        trip_world\<lparr>members := [alice_in_trip, bob_in_trip, joining_member quiet_env 0 ''u3'' ''c1''],
          ledgers := ledgers trip_world @ [zero_ledger (joining_member quiet_env 0 ''u3'' ''c1'')]\<rparr>)"
proof -
  have pre: "add_loop quiet_env ''c1'' 0 [''u3''] trip_world [] =
     Inr (trip_world\<lparr>members := members trip_world @ joined quiet_env ''c1'' 0 [''u3''],
            ledgers := ledgers trip_world @ map zero_ledger (joined quiet_env ''c1'' 0 [''u3''])\<rparr>,
          [added_view (joining_member quiet_env 0 ''u3'' ''c1'') carol])"
    by (simp add: add_one_def storage_defs joining_member_def zero_ledger_def sample_defs)
  have rej: "\<not> rejects quiet_env (length [''u3'']) UserFindUnique"
    by (simp add: quiet_env_def)
  have absent: "find (\<lambda>x. user_id x = ''u9'') (users trip_world) = None"
    by (simp add: sample_defs)
  from unknown_user_after_new_ids [OF pre rej absent, of "[''u2'']"] pre
  show ?thesis by (simp add: trip_world_def)
qed

section \<open>The reading routes\<close>

lemma include_user_Inr:
  assumes "include_user us ms = Inr r"
  shows "map fst r = ms \<and> (\<forall>mu \<in> set r. snd mu \<in> set us \<and> user_id (snd mu) = m_user_id (fst mu))"
  using assms
proof (induction ms arbitrary: r)
  case Nil
  then show ?case by simp
next
  case (Cons m ms)
  from Cons.prems obtain u r' where
    u: "find (\<lambda>u. user_id u = m_user_id m) us = Some u" and
    r': "include_user us ms = Inr r'" and
    r: "r = (m, u) # r'"
    by (auto split: option.splits sum.splits)
  from find_Some_in_set [OF u] Cons.IH [OF r'] r show ?case by simp
qed

lemma transformed_members_source:
  assumes "include_user (users w) (active_members_of w cid) = Inr ms"
    and "mv \<in> set (transformed_members ms)"
  shows "\<exists>m \<in> set (members w). \<exists>u \<in> set (users w).
           is_active m \<and> m_clique_id m = cid \<and> user_id u = m_user_id m
           \<and> mv = member_view_of (m, u)"
proof -
  from assms(2) obtain mu where mu: "mu \<in> set ms" and mv: "mv = member_view_of mu"
    by (auto simp: transformed_members_def)
  from include_user_Inr [OF assms(1)] have
    fsts: "map fst ms = active_members_of w cid" and
    snds: "\<forall>mu \<in> set ms. snd mu \<in> set (users w) \<and> user_id (snd mu) = m_user_id (fst mu)"
    by blast+
  have "fst mu \<in> set (map fst ms)" using mu by simp
  with fsts have "fst mu \<in> set (active_members_of w cid)" by simp
  moreover from snds mu have "snd mu \<in> set (users w)" and "user_id (snd mu) = m_user_id (fst mu)"
    by blast+
  ultimately show ?thesis
    using mv by (auto simp: active_members_of_def intro!: bexI [of _ "fst mu"] bexI [of _ "snd mu"])
qed

lemma include_relations_Inr:
  assumes "include_relations w cs = Inr rows" and "row \<in> set rows"
  shows "include_user (users w) (active_members_of w (clique_id (fst row))) = Inr (fst (snd row))"
  using assms
proof (induction cs arbitrary: rows)
  case Nil
  then show ?case by simp
next
  case (Cons c cs)
  from Cons.prems(1) obtain ms rs where
    ms: "include_user (users w) (active_members_of w (clique_id c)) = Inr ms" and
    rs: "include_relations w cs = Inr rs" and
    rows: "rows = (c, ms, latest_transactions w (clique_id c)) # rs"
    by (auto split: sum.splits)
  from Cons.prems(2) rows consider "row = (c, ms, latest_transactions w (clique_id c))" | "row \<in> set rs"
    by auto
  then show ?case
  proof cases
    case 1
    then show ?thesis using ms by simp
  next
    case 2
    then show ?thesis using Cons.IH [OF rs] by simp
  qed
qed

lemma list_cliques_rows:
  assumes "list_cliques e w caller = (Response st (CliqueListBody cs), w')"
  shows "\<exists>rows. include_relations w
            (filter (\<lambda>c. list_ex (\<lambda>m. m_clique_id m = clique_id c \<and> m_user_id m = caller_id caller
                                     \<and> is_active m) (members w)) (cliques w)) = Inr rows
          \<and> cs = map listed_view rows"
  using assms
  by (auto simp: list_cliques_def clique_findMany_def storage_def split: sum.splits if_splits)

lemma get_clique_row:
  assumes "get_clique e w cid = (Response st (CliqueBody cv), w')"
  shows "\<exists>(c::clique) ms. include_user (users w) (active_members_of w (clique_id c)) = Inr ms
          \<and> cv_clique_id cv = clique_id c \<and> cv_members cv = transformed_members ms"
proof -
  from assms obtain c where c: "find (\<lambda>c. clique_id c = cid) (cliques w) = Some c"
    by (cases "find (\<lambda>c. clique_id c = cid) (cliques w)")
       (auto simp: get_clique_def clique_findUnique_members_def storage_def split: if_splits)
  from assms c obtain ms where
    ms: "include_user (users w) (active_members_of w (clique_id c)) = Inr ms"
    by (cases "include_user (users w) (active_members_of w (clique_id c))")
       (auto simp: get_clique_def clique_findUnique_members_def storage_def split: if_splits)
  from assms c ms have "cv_clique_id cv = clique_id c \<and> cv_members cv = transformed_members ms"
    by (auto simp: get_clique_def clique_findUnique_members_def storage_def split: if_splits)
  with ms show ?thesis by blast
qed

section \<open>Listings\<close>

text \<open>
  Claim C6: every member shown by the list-my-cliques route and by the get-clique-by-id
  route is the view of a Member row of that clique whose \<^verbatim>\<open>is_active\<close> is true (joined
  with its user).
\<close>

theorem listings_show_active_members_only:
  "(list_cliques e w caller = (Response st (CliqueListBody cs), w')
      \<and> lc \<in> set cs \<and> mv \<in> set (lc_members lc)
    \<longrightarrow> (\<exists>m \<in> set (members w). \<exists>u \<in> set (users w).
           is_active m \<and> m_clique_id m = lc_clique_id lc \<and> user_id u = m_user_id m
           \<and> mv = member_view_of (m, u)))
   \<and> (get_clique e w cliqueId = (Response st (CliqueBody cv), w')
      \<and> mv \<in> set (cv_members cv)
    \<longrightarrow> (\<exists>m \<in> set (members w). \<exists>u \<in> set (users w).
           is_active m \<and> m_clique_id m = cv_clique_id cv \<and> user_id u = m_user_id m
           \<and> mv = member_view_of (m, u)))"
proof (intro conjI impI)
  assume a: "list_cliques e w caller = (Response st (CliqueListBody cs), w')
      \<and> lc \<in> set cs \<and> mv \<in> set (lc_members lc)"
  from list_cliques_rows [of e w caller st cs w'] a obtain rows where
    rows: "include_relations w
            (filter (\<lambda>c. list_ex (\<lambda>m. m_clique_id m = clique_id c \<and> m_user_id m = caller_id caller
                                     \<and> is_active m) (members w)) (cliques w)) = Inr rows" and
    cs: "cs = map listed_view rows"
    by blast
  from a cs obtain row where row: "row \<in> set rows" and lc: "lc = listed_view row"
    by auto
  have inc: "include_user (users w) (active_members_of w (clique_id (fst row))) = Inr (fst (snd row))"
    by (rule include_relations_Inr [OF rows row])
  have "lc_members lc = transformed_members (fst (snd row))"
    and id: "lc_clique_id lc = clique_id (fst row)"
    by (simp_all add: lc listed_view_def split: prod.splits)
  with a have "mv \<in> set (transformed_members (fst (snd row)))" by simp
  from transformed_members_source [OF inc this] id
  show "\<exists>m \<in> set (members w). \<exists>u \<in> set (users w).
           is_active m \<and> m_clique_id m = lc_clique_id lc \<and> user_id u = m_user_id m
           \<and> mv = member_view_of (m, u)"
    by simp
next
  assume a: "get_clique e w cliqueId = (Response st (CliqueBody cv), w')
      \<and> mv \<in> set (cv_members cv)"
  from get_clique_row [of e w cliqueId st cv w'] a obtain c :: clique and ms where
    inc: "include_user (users w) (active_members_of w (clique_id c)) = Inr ms" and
    id: "cv_clique_id cv = clique_id c" and mem: "cv_members cv = transformed_members ms"
    by blast
  from a mem have "mv \<in> set (transformed_members ms)" by simp
  from transformed_members_source [OF inc this] id
  show "\<exists>m \<in> set (members w). \<exists>u \<in> set (users w).
           is_active m \<and> m_clique_id m = cv_clique_id cv \<and> user_id u = m_user_id m
           \<and> mv = member_view_of (m, u)"
    by simp
qed

lemma list_cliques_trip:
  "list_cliques quiet_env trip_world founder = (Response 200 (CliqueListBody [trip_listed]), trip_world)"
  by (simp add: list_cliques_def clique_findMany_def storage_def active_members_of_def
        latest_transactions_def listed_view_def transformed_members_def member_view_of_def
        trip_listed_def sample_defs)

lemma get_clique_trip:
  "get_clique quiet_env trip_world ''c1'' = (Response 200 (CliqueBody trip_view), trip_world)"
  by (simp add: get_clique_def clique_findUnique_members_def storage_def active_members_of_def
        transformed_members_def member_view_of_def trip_view_def sample_defs)

text \<open>The trip shows Alice and not the inactive Bob.\<close>

theorem listings_show_active_members_only_witness:
  "list_cliques quiet_env trip_world founder = (Response 200 (CliqueListBody [trip_listed]), trip_world)
   \<and> get_clique quiet_env trip_world ''c1'' = (Response 200 (CliqueBody trip_view), trip_world)
   \<and> lc_members trip_listed = [MemberView ''u1'' ''m1'' ''Alice'' ''alice@example.org'' True]
   \<and> cv_members trip_view = [MemberView ''u1'' ''m1'' ''Alice'' ''alice@example.org'' True]
   \<and> (\<exists>m u. m \<in> set (members trip_world) \<and> u \<in> set (users trip_world) \<and> is_active m
         \<and> m_clique_id m = ''c1'' \<and> user_id u = m_user_id m
         \<and> MemberView ''u1'' ''m1'' ''Alice'' ''alice@example.org'' True = member_view_of (m, u))"
proof -
  have mem: "MemberView ''u1'' ''m1'' ''Alice'' ''alice@example.org'' True \<in> set (lc_members trip_listed)"
    and mem': "MemberView ''u1'' ''m1'' ''Alice'' ''alice@example.org'' True \<in> set (cv_members trip_view)"
    by (simp_all add: trip_listed_def trip_view_def)
  have id: "lc_clique_id trip_listed = ''c1''" by (simp add: trip_listed_def)
  from listings_show_active_members_only
    [of quiet_env trip_world founder 200 "[trip_listed]" trip_world trip_listed
        "MemberView ''u1'' ''m1'' ''Alice'' ''alice@example.org'' True" "''c1''" trip_view]
    list_cliques_trip get_clique_trip mem mem' id
  show ?thesis by (auto simp: trip_listed_def trip_view_def)
qed

section \<open>The loop of the remove-members route\<close>

lemma remove_loop_keeps_ledgers:
  "(remove_loop e i ids w = Inl (r, w1) \<longrightarrow> ledgers w1 = ledgers w \<and> cliques w1 = cliques w)
   \<and> (remove_loop e i ids w = Inr w1 \<longrightarrow> ledgers w1 = ledgers w \<and> cliques w1 = cliques w)"
proof (induction ids arbitrary: i w)
  case Nil
  then show ?case by simp
next
  case (Cons x xs)
  show ?case
  proof (cases "member_update_is_active e i w x False")
    case (Inl err)
    then show ?thesis by simp
  next
    case (Inr w2)
    then have "ledgers w2 = ledgers w \<and> cliques w2 = cliques w"
      by (auto simp: storage_defs split: if_splits)
    with Cons.IH [of "Suc i" w2] Inr show ?thesis by simp
  qed
qed

lemma remove_members_keeps_ledgers:
  "ledgers (snd (remove_members e w body)) = ledgers w
   \<and> cliques (snd (remove_members e w body)) = cliques w"
proof (cases body)
  case None
  then show ?thesis by (simp add: remove_members_def)
next
  case (Some ids)
  show ?thesis
  proof (cases "remove_loop e 0 ids w")
    case (Inl out)
    then show ?thesis
      using remove_loop_keeps_ledgers [of e 0 ids w "fst out" "snd out"] Some
      by (simp add: remove_members_def)
  next
    case (Inr w1)
    then show ?thesis
      using remove_loop_keeps_ledgers [of e 0 ids w undefined w1] Some
      by (simp add: remove_members_def)
  qed
qed

lemma remove_loop_all_known:
  assumes "set ids \<subseteq> set (map member_id (members w))"
    and "\<forall>k. i \<le> k \<and> k < i + length ids \<longrightarrow> \<not> rejects e k MemberUpdate"
  shows "remove_loop e i ids w = Inr (w\<lparr>members := deactivated ids (members w)\<rparr>)"
  using assms
proof (induction ids arbitrary: i w)
  case Nil
  then show ?case by (simp add: deactivated_def)
next
  case (Cons x xs)
  let ?w2 = "w\<lparr>members := map (\<lambda>m. if member_id m = x then m\<lparr>is_active := False\<rparr> else m) (members w)\<rparr>"
  have step: "member_update_is_active e i w x False = Inr ?w2"
    using Cons.prems by (simp add: storage_defs)
  have ids: "map member_id (members ?w2) = map member_id (members w)"
    by (simp add: comp_def if_distrib cong: if_cong)
  have "remove_loop e (Suc i) xs ?w2 = Inr (?w2\<lparr>members := deactivated xs (members ?w2)\<rparr>)"
  proof (rule Cons.IH)
    show "set xs \<subseteq> set (map member_id (members ?w2))"
      using Cons.prems(1) ids by simp
    show "\<forall>k. Suc i \<le> k \<and> k < Suc i + length xs \<longrightarrow> \<not> rejects e k MemberUpdate"
      using Cons.prems(2) by simp
  qed
  moreover have "?w2\<lparr>members := deactivated xs (members ?w2)\<rparr>
                   = w\<lparr>members := deactivated (x # xs) (members w)\<rparr>"
    by (auto simp: deactivated_def)
  ultimately show ?case using step by simp
qed

lemma deactivated_inactive:
  assumes "\<forall>m \<in> set ms. member_id m \<in> set ids \<longrightarrow> \<not> is_active m"
  shows "deactivated ids ms = ms"
  using assms by (induction ms) (auto simp: deactivated_def)

section \<open>Removing members\<close>

text \<open>
  Claim C8: the remove-members route never changes the ledger table. When every id of the
  request is the id of a Member row (and the updates are served), it answers 204 and the
  member table is the old one with \<^verbatim>\<open>is_active\<close> set to false on exactly the rows
  named; no row is deleted. If the rows named were inactive already, nothing changes at all
  and the answer is still 204.
\<close>

theorem remove_members_soft_delete:
  "ledgers (snd (remove_members e w body)) = ledgers w
   \<and> (set ids \<subseteq> set (map member_id (members w)) \<and> (\<forall>k < length ids. \<not> rejects e k MemberUpdate)
      \<longrightarrow> remove_members e w (Some ids) =
            (Response 204 (StatusMessage ''SUCCESS'' ''Members removed successfully''),
             w\<lparr>members := deactivated ids (members w)\<rparr>)
          \<and> ((\<forall>m \<in> set (members w). member_id m \<in> set ids \<longrightarrow> \<not> is_active m)
             \<longrightarrow> remove_members e w (Some ids) =
                  (Response 204 (StatusMessage ''SUCCESS'' ''Members removed successfully''), w)))"
proof (intro conjI impI)
  show "ledgers (snd (remove_members e w body)) = ledgers w"
    using remove_members_keeps_ledgers by blast
next
  assume a: "set ids \<subseteq> set (map member_id (members w)) \<and> (\<forall>k < length ids. \<not> rejects e k MemberUpdate)"
  then have "remove_loop e 0 ids w = Inr (w\<lparr>members := deactivated ids (members w)\<rparr>)"
    by (intro remove_loop_all_known) auto
  then show r: "remove_members e w (Some ids) =
            (Response 204 (StatusMessage ''SUCCESS'' ''Members removed successfully''),
             w\<lparr>members := deactivated ids (members w)\<rparr>)"
    by (simp add: remove_members_def)
  assume "\<forall>m \<in> set (members w). member_id m \<in> set ids \<longrightarrow> \<not> is_active m"
  then have "deactivated ids (members w) = members w"
    by (rule deactivated_inactive)
  with r show "remove_members e w (Some ids) =
                  (Response 204 (StatusMessage ''SUCCESS'' ''Members removed successfully''), w)"
    by simp
qed

text \<open>Removing Bob (inactive already) and Alice; removing Bob alone.\<close>

theorem remove_members_soft_delete_witness:
  "remove_members quiet_env trip_world (Some [''m2'', ''m1'']) =
     (Response 204 (StatusMessage ''SUCCESS'' ''Members removed successfully''),
      trip_world\<lparr>members := [alice_in_trip\<lparr>is_active := False\<rparr>, bob_in_trip]\<rparr>)
   \<and> remove_members quiet_env trip_world (Some [''m2'']) =
     (Response 204 (StatusMessage ''SUCCESS'' ''Members removed successfully''), trip_world)
   \<and> ledgers (snd (remove_members quiet_env trip_world (Some [''m2'', ''m1'']))) = ledgers trip_world"
proof -
  have a: "set [''m2'', ''m1''] \<subseteq> set (map member_id (members trip_world))
           \<and> (\<forall>k < length [''m2'', ''m1'']. \<not> rejects quiet_env k MemberUpdate)"
    and b: "set [''m2''] \<subseteq> set (map member_id (members trip_world))
           \<and> (\<forall>k < length [''m2'']. \<not> rejects quiet_env k MemberUpdate)"
    and c: "\<forall>m \<in> set (members trip_world). member_id m \<in> set [''m2''] \<longrightarrow> \<not> is_active m"
    by (simp_all add: sample_defs)
  have d: "deactivated [''m2'', ''m1''] (members trip_world)
             = [alice_in_trip\<lparr>is_active := False\<rparr>, bob_in_trip]"
    by (simp add: deactivated_def sample_defs)
  have e: "deactivated [''m2''] (members trip_world) = members trip_world"
    by (simp add: deactivated_def sample_defs)
  from remove_members_soft_delete [of quiet_env trip_world "Some [''m2'', ''m1'']" "[''m2'', ''m1'']"]
    remove_members_soft_delete [of quiet_env trip_world "Some [''m2'']" "[''m2'']"] a b c d e
  show ?thesis by simp
qed

section \<open>What each route does to the clique table\<close>

lemma add_one_keeps_cliques:
  "(add_one e g i x w acc = Inl (r, w1) \<longrightarrow> cliques w1 = cliques w)
   \<and> (add_one e g i x w acc = Inr (w1, acc1) \<longrightarrow> cliques w1 = cliques w)"
  by (auto simp: add_one_def storage_defs split: if_splits option.splits sum.splits)

lemma add_loop_keeps_cliques:
  "(add_loop e g i xs w acc = Inl (r, w1) \<longrightarrow> cliques w1 = cliques w)
   \<and> (add_loop e g i xs w acc = Inr (w1, acc1) \<longrightarrow> cliques w1 = cliques w)"
proof (induction xs arbitrary: i w acc)
  case Nil
  then show ?case by simp
next
  case (Cons x xs)
  show ?case
  proof (cases "add_one e g i x w acc")
    case (Inl out)
    then show ?thesis
      using add_one_keeps_cliques [of e g i x w acc "fst out" "snd out"] by auto
  next
    case (Inr nxt)
    then have "cliques (fst nxt) = cliques w"
      using add_one_keeps_cliques [of e g i x w acc undefined "fst nxt" "snd nxt"] by simp
    with Cons.IH [of "Suc i" "fst nxt" "snd nxt"] Inr show ?thesis
      by (simp split: prod.splits)
  qed
qed

lemma add_members_keeps_cliques: "cliques (snd (add_members e w g body)) = cliques w"
proof (cases body)
  case None
  then show ?thesis by (simp add: add_members_def)
next
  case (Some ids)
  show ?thesis
  proof (cases "add_loop e g 0 ids w []")
    case (Inl out)
    then show ?thesis
      using add_loop_keeps_cliques [of e g 0 ids w "[]" "fst out" "snd out"] Some
      by (simp add: add_members_def)
  next
    case (Inr nxt)
    then show ?thesis
      using add_loop_keeps_cliques [of e g 0 ids w "[]" undefined "fst nxt" "snd nxt"] Some
      by (auto simp: add_members_def split: prod.splits)
  qed
qed

lemma list_cliques_keeps_world: "snd (list_cliques e w caller) = w"
  by (simp add: list_cliques_def split: sum.splits)

lemma get_clique_keeps_world: "snd (get_clique e w g) = w"
  by (simp add: get_clique_def split: sum.splits option.splits prod.splits)

lemma list_media_keeps_world: "snd (list_media e w g) = w"
  by (simp add: list_media_def split: jsvalue.splits sum.splits)

lemma upload_media_keeps_cliques: "cliques (snd (upload_media e w g sender file)) = cliques w"
  by (auto simp: upload_media_def storage_defs split: option.splits sum.splits prod.splits)

lemma rename_clique_keeps_is_fund:
  "map_option is_fund (find (\<lambda>c. clique_id c = cid) (cliques (snd (rename_clique e w g name))))
     = map_option is_fund (find (\<lambda>c. clique_id c = cid) (cliques w))"
proof -
  have "map_option is_fund
          (find (\<lambda>c. clique_id c = cid)
             (map (\<lambda>c. if clique_id c = g then c\<lparr>clique_name := n\<rparr> else c) (cliques w)))
        = map_option is_fund (find (\<lambda>c. clique_id c = cid) (cliques w))" for n
    by (subst find_map_same_key) (auto simp: option.map_comp comp_def intro!: option.map_cong)
  then show ?thesis
    by (auto simp: rename_clique_def storage_defs split: sum.splits option.splits if_splits)
qed

lemma delete_clique_keeps_others:
  assumes "find (\<lambda>c. clique_id c = cid) (cliques (snd (delete_clique e w g))) = Some c'"
  shows "find (\<lambda>c. clique_id c = cid) (cliques w) = Some c'"
  using assms
  by (auto simp: delete_clique_def storage_defs find_filter_other_key
           split: sum.splits option.splits if_splits)

lemma create_clique_adds_one:
  assumes "find (\<lambda>c. clique_id c = cid) (cliques (snd (create_clique e w caller name funds))) = Some c'"
  shows "find (\<lambda>c. clique_id c = cid) (cliques w) = Some c'
         \<or> (find (\<lambda>c. clique_id c = cid) (cliques w) = None \<and> c' = new_clique e name funds)"
  using assms
  by (auto simp: create_clique_def storage_defs find_append_cases
           split: sum.splits option.splits if_splits)

section \<open>The fund flag\<close>

text \<open>
  Claim C9: take any request to any route of the router, and a clique that is in the table
  afterwards. Either it was in the table before, with the same \<^verbatim>\<open>is_fund\<close>; or the
  request was a create, and its \<^verbatim>\<open>is_fund\<close> is \<^verbatim>\<open>funds !== 0\<close> for the fund
  amount of that request: for a number, true if and only if the amount is not zero.
\<close>

theorem is_fund_fixed_at_creation:
  assumes "handle e w rq = (r, w')"
    and "find (\<lambda>c. clique_id c = cid) (cliques w') = Some c'"
  shows "(\<exists>c. find (\<lambda>c. clique_id c = cid) (cliques w) = Some c \<and> is_fund c' = is_fund c)
         \<or> (find (\<lambda>c. clique_id c = cid) (cliques w) = None
            \<and> (\<exists>caller name funds. rq = CreateClique caller name funds
                 \<and> is_fund c' = js_strict_neq funds (Num 0)
                 \<and> (\<forall>x. funds = Num x \<longrightarrow> is_fund c' = (x \<noteq> 0))))"
proof (cases rq)
  case (ListCliques caller)
  with assms list_cliques_keeps_world [of e w caller] show ?thesis by auto
next
  case (CreateClique caller name funds)
  with assms have "find (\<lambda>c. clique_id c = cid)
                     (cliques (snd (create_clique e w caller name funds))) = Some c'"
    by simp
  from create_clique_adds_one [OF this] show ?thesis
  proof
    assume "find (\<lambda>c. clique_id c = cid) (cliques w) = Some c'"
    then show ?thesis by simp
  next
    assume "find (\<lambda>c. clique_id c = cid) (cliques w) = None \<and> c' = new_clique e name funds"
    then show ?thesis using CreateClique by (auto simp: new_clique_def)
  qed
next
  case (GetClique g)
  with assms get_clique_keeps_world [of e w g] show ?thesis by auto
next
  case (RenameClique g name)
  with assms rename_clique_keeps_is_fund [of cid e w g name] show ?thesis
    by (cases "find (\<lambda>c. clique_id c = cid) (cliques w)") auto
next
  case (DeleteClique g)
  with assms delete_clique_keeps_others [of cid e w g c'] show ?thesis by auto
next
  case (AddMembers g body)
  with assms add_members_keeps_cliques [of e w g body] show ?thesis by auto
next
  case (RemoveMembers body)
  with assms remove_members_keeps_ledgers [of e w body] show ?thesis by auto
next
  case (ListMedia g)
  with assms list_media_keeps_world [of e w g] show ?thesis by auto
next
  case (UploadMedia g sender upl)
  with assms upload_media_keeps_cliques [of e w g sender upl] show ?thesis by auto
qed

text \<open>Creating a clique with fund 10, and renaming the trip.\<close>

theorem is_fund_fixed_at_creation_witness:
  "find (\<lambda>c. clique_id c = ''c2'')
      (cliques (snd (handle quiet_env trip_world (CreateClique founder ''Goa'' (Num 10)))))
     = Some (new_clique quiet_env ''Goa'' (Num 10))
   \<and> find (\<lambda>c. clique_id c = ''c2'') (cliques trip_world) = None
   \<and> is_fund (new_clique quiet_env ''Goa'' (Num 10))
   \<and> find (\<lambda>c. clique_id c = ''c1'')
      (cliques (snd (handle quiet_env trip_world (RenameClique ''c1'' (Some ''Goa'')))))
     = Some (trip\<lparr>clique_name := ''Goa''\<rparr>)
   \<and> is_fund (trip\<lparr>clique_name := ''Goa''\<rparr>) = is_fund trip"
proof -
  have a: "find (\<lambda>c. clique_id c = ''c2'')
      (cliques (snd (handle quiet_env trip_world (CreateClique founder ''Goa'' (Num 10)))))
     = Some (new_clique quiet_env ''Goa'' (Num 10))"
    by (simp add: create_clique_def storage_defs new_clique_def founding_member_def zero_ledger_def
          sample_defs)
  have b: "find (\<lambda>c. clique_id c = ''c1'')
      (cliques (snd (handle quiet_env trip_world (RenameClique ''c1'' (Some ''Goa'')))))
     = Some (trip\<lparr>clique_name := ''Goa''\<rparr>)"
    by (simp add: rename_clique_def storage_defs sample_defs)
  have c: "find (\<lambda>c. clique_id c = ''c2'') (cliques trip_world) = None"
    and d: "find (\<lambda>c. clique_id c = ''c1'') (cliques trip_world) = Some trip"
    by (simp_all add: sample_defs)
  from is_fund_fixed_at_creation
         [of quiet_env trip_world "CreateClique founder ''Goa'' (Num 10)"
             "fst (handle quiet_env trip_world (CreateClique founder ''Goa'' (Num 10)))"
             "snd (handle quiet_env trip_world (CreateClique founder ''Goa'' (Num 10)))"
             "''c2''" "new_clique quiet_env ''Goa'' (Num 10)"]
       is_fund_fixed_at_creation
         [of quiet_env trip_world "RenameClique ''c1'' (Some ''Goa'')"
             "fst (handle quiet_env trip_world (RenameClique ''c1'' (Some ''Goa'')))"
             "snd (handle quiet_env trip_world (RenameClique ''c1'' (Some ''Goa'')))"
             "''c1''" "trip\<lparr>clique_name := ''Goa''\<rparr>"]
       a b c d
  show ?thesis by simp
qed

section \<open>No second row for a pair that has one\<close>

lemma filter_map_same_key:
  assumes "\<And>x. P (f x) = P x"
  shows "filter P (map f xs) = map f (filter P xs)"
  using assms by (induction xs) auto

lemma member_update_keeps_keys:
  assumes "member_update_is_active e i w mid b = Inr w1"
  shows "ledgers w1 = ledgers w
         \<and> map member_id (members w1) = map member_id (members w)
         \<and> length (filter (\<lambda>x. m_user_id x = u \<and> m_clique_id x = g) (members w1))
             = length (filter (\<lambda>x. m_user_id x = u \<and> m_clique_id x = g) (members w))
         \<and> (find (\<lambda>x. m_user_id x = u \<and> m_clique_id x = g) (members w1) = None
             \<longleftrightarrow> find (\<lambda>x. m_user_id x = u \<and> m_clique_id x = g) (members w) = None)"
proof -
  let ?f = "\<lambda>m. if member_id m = mid then m\<lparr>is_active := b\<rparr> else m"
  from assms have w1: "w1 = w\<lparr>members := map ?f (members w)\<rparr>"
    by (auto simp: storage_defs split: if_splits)
  have a: "map member_id (map ?f (members w)) = map member_id (members w)"
    by (induction "members w") (auto simp: comp_def)
  have b: "filter (\<lambda>x. m_user_id x = u \<and> m_clique_id x = g) (map ?f (members w))
             = map ?f (filter (\<lambda>x. m_user_id x = u \<and> m_clique_id x = g) (members w))"
    by (rule filter_map_same_key) simp
  have c: "find (\<lambda>x. m_user_id x = u \<and> m_clique_id x = g) (map ?f (members w))
             = map_option ?f (find (\<lambda>x. m_user_id x = u \<and> m_clique_id x = g) (members w))"
    by (rule find_map_same_key) simp
  show ?thesis
    unfolding w1 using a b c by simp
qed

lemma add_one_shapes:
  assumes "add_one e g i x w acc = Inl (r, w1) \<or> add_one e g i x w acc = Inr (w1, acc1)"
  shows "w1 = w
     \<or> (\<exists>mid. member_update_is_active e i w mid True = Inr w1)
     \<or> (find (\<lambda>m. m_user_id m = x \<and> m_clique_id m = g) (members w) = None
        \<and> member_id (joining_member e i x g) \<notin> set (map member_id (members w))
        \<and> (w1 = w\<lparr>members := members w @ [joining_member e i x g]\<rparr>
           \<or> w1 = w\<lparr>members := members w @ [joining_member e i x g],
                     ledgers := ledgers w @ [zero_ledger (joining_member e i x g)]\<rparr>))"
proof (cases "user_findUnique e i w x")
  case (Inl err)
  with assms show ?thesis by (simp add: add_one_def)
next
  case (Inr found)
  note usr = this
  show ?thesis
  proof (cases found)
    case None
    with assms usr show ?thesis by (simp add: add_one_def)
  next
    case (Some usr')
    note usr = usr [unfolded Some]
    show ?thesis
    proof (cases "member_findFirst e i w x g")
      case (Inl err)
      with assms usr show ?thesis by (simp add: add_one_def)
    next
      case (Inr first)
      note fst = this
      show ?thesis
      proof (cases first)
        case (Some cm)
        note fst = fst [unfolded Some]
        show ?thesis
        proof (cases "is_active cm")
          case True
          with assms usr fst show ?thesis by (simp add: add_one_def)
        next
          case False
          show ?thesis
          proof (cases "member_update_is_active e i w (member_id cm) True")
            case (Inl err)
            with assms usr fst False show ?thesis by (simp add: add_one_def)
          next
            case (Inr w2)
            with assms usr fst False have "w1 = w2" by (simp add: add_one_def)
            with Inr show ?thesis by blast
          qed
        qed
      next
        case None
        note fst = fst [unfolded None]
        from fst have none: "find (\<lambda>m. m_user_id m = x \<and> m_clique_id m = g) (members w) = None"
          by (simp add: member_findFirst_def storage_def split: if_splits)
        show ?thesis
        proof (cases "member_create e i w (joining_member e i x g)")
          case (Inl err)
          with assms usr fst show ?thesis by (simp add: add_one_def)
        next
          case (Inr made)
          then have made: "made = (w\<lparr>members := members w @ [joining_member e i x g]\<rparr>,
                                   joining_member e i x g)"
            and fresh: "member_id (joining_member e i x g) \<notin> set (map member_id (members w))"
            by (auto simp: member_create_def storage_def split: if_splits)
          note mk = Inr [unfolded made]
          show ?thesis
          proof (cases "ledger_create e i (w\<lparr>members := members w @ [joining_member e i x g]\<rparr>)
                          (zero_ledger (joining_member e i x g))")
            case (Inl err)
            with assms usr fst mk have "w1 = w\<lparr>members := members w @ [joining_member e i x g]\<rparr>"
              by (simp add: add_one_def)
            with none fresh show ?thesis by blast
          next
            case (Inr led)
            then have "led = (w\<lparr>members := members w @ [joining_member e i x g],
                                ledgers := ledgers w @ [zero_ledger (joining_member e i x g)]\<rparr>,
                              zero_ledger (joining_member e i x g))"
              by (auto simp: ledger_create_def storage_def split: if_splits)
            with Inr assms usr fst mk have
              "w1 = w\<lparr>members := members w @ [joining_member e i x g],
                       ledgers := ledgers w @ [zero_ledger (joining_member e i x g)]\<rparr>"
              by (simp add: add_one_def)
            with none fresh show ?thesis by blast
          qed
        qed
      qed
    qed
  qed
qed

lemma add_one_no_duplicate:
  assumes "find (\<lambda>x. m_user_id x = u \<and> m_clique_id x = g) (members w) \<noteq> None"
    and "mid \<in> set (map member_id (members w))"
    and "add_one e g i x w acc = Inl (r, w1) \<or> add_one e g i x w acc = Inr (w1, acc1)"
  shows "find (\<lambda>x. m_user_id x = u \<and> m_clique_id x = g) (members w1) \<noteq> None
         \<and> mid \<in> set (map member_id (members w1))
         \<and> length (filter (\<lambda>x. m_user_id x = u \<and> m_clique_id x = g) (members w1))
             = length (filter (\<lambda>x. m_user_id x = u \<and> m_clique_id x = g) (members w))
         \<and> filter (\<lambda>l. l_member_id l = mid) (ledgers w1) = filter (\<lambda>l. l_member_id l = mid) (ledgers w)"
proof -
  let ?new = "joining_member e i x g"
  from add_one_shapes [OF assms(3)] consider
      (same) "w1 = w"
    | (reactivated) mid' where "member_update_is_active e i w mid' True = Inr w1"
    | (member_only) "find (\<lambda>m. m_user_id m = x \<and> m_clique_id m = g) (members w) = None"
        "member_id ?new \<notin> set (map member_id (members w))"
        "w1 = w\<lparr>members := members w @ [?new]\<rparr>"
    | (both) "find (\<lambda>m. m_user_id m = x \<and> m_clique_id m = g) (members w) = None"
        "member_id ?new \<notin> set (map member_id (members w))"
        "w1 = w\<lparr>members := members w @ [?new], ledgers := ledgers w @ [zero_ledger ?new]\<rparr>"
    by (elim disjE exE conjE) blast+
  then show ?thesis
  proof cases
    case same
    with assms(1,2) show ?thesis by simp
  next
    case reactivated
    from member_update_keeps_keys [OF this, of u g] assms(1,2) show ?thesis by simp
  next
    case member_only
    with assms(1) have "x \<noteq> u" by auto
    then have "\<not> (m_user_id ?new = u \<and> m_clique_id ?new = g)"
      by (simp add: joining_member_def)
    with member_only(3) assms(1,2) show ?thesis
      by (auto simp: find_append_cases)
  next
    case both
    with assms(1) have "x \<noteq> u" by auto
    then have a: "\<not> (m_user_id ?new = u \<and> m_clique_id ?new = g)"
      by (simp add: joining_member_def)
    from both(2) assms(2) have "member_id ?new \<noteq> mid" by auto
    then have b: "l_member_id (zero_ledger ?new) \<noteq> mid"
      by (simp add: zero_ledger_def)
    from both(3) a b assms(1,2) show ?thesis
      by (auto simp: find_append_cases)
  qed
qed

lemma add_loop_no_duplicate:
  assumes "find (\<lambda>x. m_user_id x = u \<and> m_clique_id x = g) (members w) \<noteq> None"
    and "mid \<in> set (map member_id (members w))"
    and "add_loop e g i xs w acc = Inl (r, w1) \<or> add_loop e g i xs w acc = Inr (w1, acc1)"
  shows "length (filter (\<lambda>x. m_user_id x = u \<and> m_clique_id x = g) (members w1))
             = length (filter (\<lambda>x. m_user_id x = u \<and> m_clique_id x = g) (members w))
         \<and> filter (\<lambda>l. l_member_id l = mid) (ledgers w1) = filter (\<lambda>l. l_member_id l = mid) (ledgers w)"
  using assms
proof (induction xs arbitrary: i w acc)
  case Nil
  then show ?case by auto
next
  case (Cons x xs)
  show ?case
  proof (cases "add_one e g i x w acc")
    case (Inl out)
    with Cons.prems(3) have "add_one e g i x w acc = Inl (r, w1)" by auto
    with add_one_no_duplicate [OF Cons.prems(1,2), of e i x acc r w1 undefined]
    show ?thesis by blast
  next
    case (Inr nxt)
    obtain w2 acc2 where nxt: "nxt = (w2, acc2)" by (cases nxt)
    from Inr nxt have one: "add_one e g i x w acc = Inr (w2, acc2)" by simp
    from add_one_no_duplicate [OF Cons.prems(1,2), of e i x acc undefined w2 acc2] one have
      inv: "find (\<lambda>x. m_user_id x = u \<and> m_clique_id x = g) (members w2) \<noteq> None"
           "mid \<in> set (map member_id (members w2))" and
      eq: "length (filter (\<lambda>x. m_user_id x = u \<and> m_clique_id x = g) (members w2))
             = length (filter (\<lambda>x. m_user_id x = u \<and> m_clique_id x = g) (members w))"
          "filter (\<lambda>l. l_member_id l = mid) (ledgers w2) = filter (\<lambda>l. l_member_id l = mid) (ledgers w)"
      by blast+
    from Cons.prems(3) one have
      "add_loop e g (Suc i) xs w2 acc2 = Inl (r, w1) \<or> add_loop e g (Suc i) xs w2 acc2 = Inr (w1, acc1)"
      by simp
    from Cons.IH [OF inv this] eq show ?thesis by simp
  qed
qed

lemma add_members_no_duplicate:
  assumes "find (\<lambda>x. m_user_id x = u \<and> m_clique_id x = g) (members w) = Some m"
  shows "length (filter (\<lambda>x. m_user_id x = u \<and> m_clique_id x = g)
                   (members (snd (add_members e w g body))))
           = length (filter (\<lambda>x. m_user_id x = u \<and> m_clique_id x = g) (members w))
         \<and> filter (\<lambda>l. l_member_id l = member_id m) (ledgers (snd (add_members e w g body)))
             = filter (\<lambda>l. l_member_id l = member_id m) (ledgers w)"
proof (cases body)
  case None
  then show ?thesis by (simp add: add_members_def)
next
  case (Some ids)
  have inv: "find (\<lambda>x. m_user_id x = u \<and> m_clique_id x = g) (members w) \<noteq> None"
    "member_id m \<in> set (map member_id (members w))"
    using assms find_Some_in_set [OF assms] by auto
  show ?thesis
  proof (cases "add_loop e g 0 ids w []")
    case (Inl out)
    obtain r w1 where out: "out = (r, w1)" by (cases out)
    from add_loop_no_duplicate [OF inv, of e 0 ids "[]" r w1 undefined] Inl out Some
    show ?thesis by (simp add: add_members_def)
  next
    case (Inr nxt)
    obtain w1 acc1 where nxt: "nxt = (w1, acc1)" by (cases nxt)
    from add_loop_no_duplicate [OF inv, of e 0 ids "[]" undefined w1 acc1] Inr nxt Some
    show ?thesis by (simp add: add_members_def)
  qed
qed

section \<open>The reactivation branch\<close>

text \<open>
  In general: at an id whose user has an inactive row in the clique, the loop sets the row
  active and leaves the route with the list gathered so far; the ids behind it play no part.
\<close>

lemma add_loop_reactivation_exit:
  assumes "\<not> rejects e i UserFindUnique" and "find (\<lambda>u. user_id u = x) (users w) = Some usr"
    and "\<not> rejects e i MemberFindFirst"
    and "find (\<lambda>m. m_user_id m = x \<and> m_clique_id m = g) (members w) = Some cm"
    and "\<not> is_active cm" and "\<not> rejects e i MemberUpdate"
  shows "add_loop e g i (x # rest) w acc =
           Inl (members_added acc,
                w\<lparr>members := map (\<lambda>m. if member_id m = member_id cm then m\<lparr>is_active := True\<rparr> else m)
                                (members w)\<rparr>)"
proof -
  from find_Some_in_set [OF assms(4)] have "member_id cm \<in> set (map member_id (members w))"
    by auto
  with assms show ?thesis
    by (simp add: add_one_def storage_defs)
qed

lemma conflict_after_prefix:
  assumes "add_loop e g 0 pre w [] = Inr (w1, acc1)"
    and "\<not> rejects e (length pre) UserFindUnique"
    and "find (\<lambda>x. user_id x = u) (users w) = Some usr"
    and "\<not> rejects e (length pre) MemberFindFirst"
    and "find (\<lambda>x. m_user_id x = u \<and> m_clique_id x = g) (members w) = Some m"
    and "is_active m"
  shows "add_members e w g (Some (pre @ u # post)) =
           (Response 409
              (StatusMessage ''FAILURE''
                 (''User with email id: '' @ mail usr @ '' already exists in the clique'')),
            w1)
         \<and> filter (\<lambda>x. m_user_id x = u \<and> m_clique_id x = g) (members w1) =
             filter (\<lambda>x. m_user_id x = u \<and> m_clique_id x = g) (members w)
         \<and> filter (\<lambda>l. l_member_id l = member_id m) (ledgers w1) =
             filter (\<lambda>l. l_member_id l = member_id m) (ledgers w)"
proof -
  from add_loop_Inr [OF assms(1)] have
    w1: "w1 = w\<lparr>members := members w @ joined e g 0 pre,
                 ledgers := ledgers w @ map zero_ledger (joined e g 0 pre)\<rparr>" and
    none: "\<forall>x \<in> set pre. find (\<lambda>m. m_user_id m = x \<and> m_clique_id m = g) (members w) = None" and
    disj: "set (map member_id (joined e g 0 pre)) \<inter> set (map member_id (members w)) = {}"
    by blast+
  have users: "users w1 = users w" by (simp add: w1)
  have first: "find (\<lambda>x. m_user_id x = u \<and> m_clique_id x = g) (members w1) = Some m"
    using assms(5) by (simp add: w1 find_append_cases)
  have one: "add_one e g (length pre) u w1 acc1 =
       Inl (Response 409
              (StatusMessage ''FAILURE''
                 (''User with email id: '' @ mail usr @ '' already exists in the clique'')),
            w1)"
    using assms(2,3,4,6) users first by (simp add: add_one_def storage_defs)
  have resp: "add_members e w g (Some (pre @ u # post)) =
           (Response 409
              (StatusMessage ''FAILURE''
                 (''User with email id: '' @ mail usr @ '' already exists in the clique'')),
            w1)"
    using assms(1) one by (simp add: add_members_def add_loop_append)
  have "u \<notin> set pre" using none assms(5) by auto
  then have mem: "filter (\<lambda>x. m_user_id x = u \<and> m_clique_id x = g) (members w1) =
             filter (\<lambda>x. m_user_id x = u \<and> m_clique_id x = g) (members w)"
    by (simp add: w1 joined_other_user)
  have "member_id m \<in> set (map member_id (members w))"
    using find_Some_in_set [OF assms(5)] by auto
  with disj have "member_id m \<notin> set (map member_id (joined e g 0 pre))" by blast
  then have led: "filter (\<lambda>l. l_member_id l = member_id m) (ledgers w1) =
             filter (\<lambda>l. l_member_id l = member_id m) (ledgers w)"
    by (simp add: w1 zero_ledger_other_member)
  from resp mem led show ?thesis by blast
qed

section \<open>Adding an active member\<close>

text \<open>
  Claim C4 (a call that includes a user with an active Member row in the clique fails with
  409 at that id) against the code. Bob (\<open>u2\<close>) has an inactive row in the trip, Alice
  (\<open>u1\<close>) an active one. The request \<open>[u2, u1]\<close> reactivates Bob's row and returns at
  once with 201: Alice's id is never looked at and no 409 is answered. It is the early return
  of the reactivation branch again.
\<close>

theorem add_members_conflict_after_reactivation:
  "add_members quiet_env trip_world ''c1'' (Some [''u2'', ''u1'']) =
     (Response 201 (MembersBody ''SUCCESS'' ''Members added successfully'' []),
      trip_world\<lparr>members := [alice_in_trip, bob_in_trip\<lparr>is_active := True\<rparr>]\<rparr>)
   \<and> m_user_id alice_in_trip = ''u1'' \<and> m_clique_id alice_in_trip = ''c1''
   \<and> is_active alice_in_trip"
  by (simp add: add_members_def add_one_def members_added_def storage_defs sample_defs)

text \<open>
  What does hold for an active member: let user \<open>u\<close> have a Member row in clique \<open>g\<close>
  and let it be active. Whatever the request, afterwards \<open>(u, g)\<close> has as many Member rows
  as before and the Ledger entries of that member are the same. If moreover the ids \<open>pre\<close>
  in front of \<open>u\<close> were all new to the clique and added, so that the loop stands at \<open>u\<close>
  with the tables \<open>w1\<close>, the call answers 409 naming the user's mail address, whatever ids
  \<open>post\<close> follow, and leaves the tables \<open>w1\<close>, in which the rows of \<open>(u, g)\<close> are
  those it had.
\<close>

lemma active_member_after_new_ids:
  assumes "find (\<lambda>x. m_user_id x = u \<and> m_clique_id x = g) (members w) = Some m"
    and "is_active m"
  shows "length (filter (\<lambda>x. m_user_id x = u \<and> m_clique_id x = g)
                   (members (snd (add_members e w g body))))
           = length (filter (\<lambda>x. m_user_id x = u \<and> m_clique_id x = g) (members w))
         \<and> filter (\<lambda>l. l_member_id l = member_id m) (ledgers (snd (add_members e w g body)))
             = filter (\<lambda>l. l_member_id l = member_id m) (ledgers w)
         \<and> (add_loop e g 0 pre w [] = Inr (w1, acc1)
              \<and> \<not> rejects e (length pre) UserFindUnique
              \<and> find (\<lambda>x. user_id x = u) (users w) = Some usr
              \<and> \<not> rejects e (length pre) MemberFindFirst
            \<longrightarrow> add_members e w g (Some (pre @ u # post)) =
                  (Response 409
                     (StatusMessage ''FAILURE''
                        (''User with email id: '' @ mail usr @ '' already exists in the clique'')),
                   w1)
                \<and> filter (\<lambda>x. m_user_id x = u \<and> m_clique_id x = g) (members w1) =
                    filter (\<lambda>x. m_user_id x = u \<and> m_clique_id x = g) (members w))"
proof (intro conjI impI)
  show "length (filter (\<lambda>x. m_user_id x = u \<and> m_clique_id x = g)
                   (members (snd (add_members e w g body))))
           = length (filter (\<lambda>x. m_user_id x = u \<and> m_clique_id x = g) (members w))"
    using add_members_no_duplicate [OF assms(1)] by blast
next
  show "filter (\<lambda>l. l_member_id l = member_id m) (ledgers (snd (add_members e w g body)))
             = filter (\<lambda>l. l_member_id l = member_id m) (ledgers w)"
    using add_members_no_duplicate [OF assms(1)] by blast
next
  assume a: "add_loop e g 0 pre w [] = Inr (w1, acc1)
              \<and> \<not> rejects e (length pre) UserFindUnique
              \<and> find (\<lambda>x. user_id x = u) (users w) = Some usr
              \<and> \<not> rejects e (length pre) MemberFindFirst"
  then have pre: "add_loop e g 0 pre w [] = Inr (w1, acc1)"
    and r1: "\<not> rejects e (length pre) UserFindUnique"
    and usr: "find (\<lambda>x. user_id x = u) (users w) = Some usr"
    and r2: "\<not> rejects e (length pre) MemberFindFirst"
    by simp_all
  note c = conflict_after_prefix [OF pre r1 usr r2 assms(1,2), of post]
  from c show "add_members e w g (Some (pre @ u # post)) =
                  (Response 409
                     (StatusMessage ''FAILURE''
                        (''User with email id: '' @ mail usr @ '' already exists in the clique'')),
                   w1)"
    by blast
  from c show "filter (\<lambda>x. m_user_id x = u \<and> m_clique_id x = g) (members w1) =
                    filter (\<lambda>x. m_user_id x = u \<and> m_clique_id x = g) (members w)"
    by blast
qed

text \<open>Carol is added, Alice is an active member, Bob is never reached.\<close>

lemma active_member_after_new_ids_example:
  "add_members quiet_env trip_world ''c1'' (Some [''u3'', ''u1'', ''u2'']) =
       (Response 409
          (StatusMessage ''FAILURE''
             ''User with email id: alice@example.org already exists in the clique''),
        trip_world\<lparr>members := [alice_in_trip, bob_in_trip, joining_member quiet_env 0 ''u3'' ''c1''],
          ledgers := ledgers trip_world @ [zero_ledger (joining_member quiet_env 0 ''u3'' ''c1'')]\<rparr>)
   \<and> filter (\<lambda>x. m_user_id x = ''u1'' \<and> m_clique_id x = ''c1'')
        [alice_in_trip, bob_in_trip, joining_member quiet_env 0 ''u3'' ''c1''] = [alice_in_trip]
   \<and> filter (\<lambda>l. l_member_id l = ''m1'')
        (ledgers trip_world @ [zero_ledger (joining_member quiet_env 0 ''u3'' ''c1'')])
       = [\<lparr>l_member_id = ''m1'', l_clique_id = ''c1'', amount = 0, is_due = False\<rparr>]"
proof -
  have pre: "add_loop quiet_env ''c1'' 0 [''u3''] trip_world [] =
     Inr (trip_world\<lparr>members := [alice_in_trip, bob_in_trip, joining_member quiet_env 0 ''u3'' ''c1''],
            ledgers := ledgers trip_world @ [zero_ledger (joining_member quiet_env 0 ''u3'' ''c1'')]\<rparr>,
          [added_view (joining_member quiet_env 0 ''u3'' ''c1'') carol])"
    by (simp add: add_one_def storage_defs joining_member_def zero_ledger_def sample_defs)
  have rej1: "\<not> rejects quiet_env (length [''u3'']) UserFindUnique"
    and rej2: "\<not> rejects quiet_env (length [''u3'']) MemberFindFirst"
    by (simp_all add: quiet_env_def)
  have usr: "find (\<lambda>x. user_id x = ''u1'') (users trip_world) = Some alice"
    by (simp add: sample_defs)
  have mem: "find (\<lambda>x. m_user_id x = ''u1'' \<and> m_clique_id x = ''c1'') (members trip_world)
               = Some alice_in_trip"
    by (simp add: sample_defs)
  have act: "is_active alice_in_trip"
    by (simp add: sample_defs)
  from active_member_after_new_ids
         [OF mem act, of quiet_env "Some [''u3'', ''u1'', ''u2'']" "[''u3'']" _ _ alice "[''u2'']"]
       pre rej1 usr rej2
  show ?thesis by (simp add: sample_defs joining_member_def zero_ledger_def)
qed

end
